theory Spec2Isabelle
  imports Complex_Main
begin

section \<open>Data model of countries.service.ts\<close>

text \<open>
  JavaScript numbers are modelled as exact rationals: the arithmetic of the service
  (products, one division by 1e9) is read without IEEE rounding, and \<open>Infinity\<close> is
  outside the model. Where a value is declared as a nullable number or string,
  \<open>null\<close>/\<open>undefined\<close> is \<open>None\<close>. Strings are lists of characters.
\<close>

type_synonym number = rat

record CurrencyData =
  code :: string
  currency_name :: string
  symbol :: string

text \<open>
  The fields shared by the incoming item (interface \<open>Countries\<close>) and the persisted
  row (Prisma model \<open>country\<close>) are declared once and extended twice.
\<close>

record country_core =
  name :: string
  capital :: string
  region :: string
  population :: number

record Countries = country_core +
  currencies :: "CurrencyData list option"
  flag :: string
  independent :: string

text \<open>
  The two numeric columns hold a nullable number in a stored row. In the object that is
  handed to \<open>create\<close> they hold whatever the service computed, which at run time
  need not be a number (see \<open>js_value\<close> below); the record is declared once for both.
\<close>

record 'v country_columns = country_core +
  currency_code :: "string option"
  exchange_rate :: 'v
  estimated_gdp :: 'v
  flag_url :: string

type_synonym Country = "number option country_columns"

record ExchangeRateData =
  result :: string
  base_code :: string
  rates :: "(string \<times> number) list"

text \<open>\<open>TopCountries\<close>: the projection \<open>select: {name, estimated_gdp}\<close>.\<close>

type_synonym TopCountries = "string \<times> number option"

subsection \<open>Exceptions\<close>

datatype db_op = FindFirst | FindMany | Count | Create | Update | Delete

text \<open>What makes an axios request reject.\<close>

datatype axios_error = Timeout | NetworkError | BadStatus nat

text \<open>
  \<open>HttpException status message\<close> is Nest's exception class; \<open>NotFoundException\<close> is
  its subclass with status 404. \<open>PrismaError op\<close> is an error thrown by the Prisma call
  \<open>op\<close>, \<open>AxiosError\<close> the error a rejected request throws at its \<open>await\<close>,
  \<open>SharpError\<close> one thrown by the raster encoder, \<open>Error\<close> a plain JavaScript error.
\<close>

datatype exn =
    HttpException nat string
  | PrismaError db_op
  | AxiosError axios_error
  | SharpError
  | Error string

definition NotFoundException :: "string \<Rightarrow> exn" where
  "NotFoundException msg = HttpException 404 msg"

fun instanceof_HttpException :: "exn \<Rightarrow> bool" where
  "instanceof_HttpException (HttpException s m) = True"
| "instanceof_HttpException e = False"

definition INTERNAL_SERVER_ERROR :: nat where
  "INTERNAL_SERVER_ERROR = 500"

definition SERVICE_UNAVAILABLE :: nat where
  "SERVICE_UNAVAILABLE = 503"

subsection \<open>Outcome of an axios request\<close>

datatype 'a axios_result = Rejected axios_error | Resolved 'a

subsection \<open>The platform\<close>

text \<open>
  What the service takes from the platform it runs on is a parameter of the model, and
  every property below is proved for every platform. The parameters are: where the
  database places \<open>NULL\<close> in an ordering; whether Prisma rejects a \<open>where\<close> object
  with a key that is no column of the table; and the two case mappings of the JavaScript
  engine, \<open>String.prototype.toLowerCase\<close> and \<open>String.prototype.toUpperCase\<close>. The
  mappings follow the Unicode tables of the engine and are not letter-by-letter (sharp s
  becomes SS, long s becomes S), so nothing is assumed about them: they are any two
  functions from strings to strings.
\<close>

record platform =
  nulls_largest :: bool
  rejects_unknown_key :: bool
  toLowerCase :: "string \<Rightarrow> string"
  toUpperCase :: "string \<Rightarrow> string"

subsection \<open>String helpers\<close>

text \<open>\<open>str.charAt(0).toUpperCase() + str.slice(1)\<close>\<close>

definition capitalizeFirstWord :: "platform \<Rightarrow> string \<Rightarrow> string" where
  "capitalizeFirstWord cfg str = toUpperCase cfg (take 1 str) @ drop 1 str"

text \<open>JavaScript truthiness of an optional string: \<open>undefined\<close> and \<open>''\<close> are falsy.\<close>

fun truthy :: "string option \<Rightarrow> bool" where
  "truthy None = False"
| "truthy (Some s) = (s \<noteq> [])"

section \<open>ExchangeRateResolver and GdpEstimator\<close>

text \<open>
  The object \<open>data.rates\<close> is parsed from JSON: its own properties are kept as a list
  of pairs (a key has the value of its first pair), and its prototype is
  \<open>Object.prototype\<close>. Reading \<open>data.rates[key]\<close> gives the own property if there is
  one, else the property that \<open>Object.prototype\<close> has under that name, which is a
  function (for \<open>__proto__\<close>, the prototype object), else \<open>undefined\<close>. So the value
  that \<open>getExchangeRate\<close> returns, declared \<open>number | null\<close>, is at run time one of:
  \<open>null\<close>/\<open>undefined\<close>, a number, or an inherited function or object. \<open>NaN\<close> is what
  a product with such a function or object evaluates to.
\<close>

datatype js_value = Null | Number number | NaN | Inherited string

definition Object_prototype :: "string list" where
  "Object_prototype =
     [''constructor'', ''__defineGetter__'', ''__defineSetter__'', ''hasOwnProperty'',
      ''__lookupGetter__'', ''__lookupSetter__'', ''isPrototypeOf'',
      ''propertyIsEnumerable'', ''toString'', ''valueOf'', ''__proto__'',
      ''toLocaleString'']"

text \<open>\<open>obj[key]\<close>\<close>

definition property :: "(string \<times> number) list \<Rightarrow> string \<Rightarrow> js_value" where
  "property obj key =
     (case map_of obj key of
        Some v \<Rightarrow> Number v
      | None \<Rightarrow> if key \<in> set Object_prototype then Inherited key else Null)"

text \<open>\<open>x || null\<close>: \<open>undefined\<close>, \<open>0\<close> and \<open>NaN\<close> are falsy, functions and objects are not.\<close>

fun or_null :: "js_value \<Rightarrow> js_value" where
  "or_null Null = Null"
| "or_null (Number r) = (if r = 0 then Null else Number r)"
| "or_null NaN = Null"
| "or_null (Inherited f) = Inherited f"

text \<open>\<open>x || 0\<close> on a nullable number.\<close>

fun or_zero :: "number option \<Rightarrow> number" where
  "or_zero None = 0"
| "or_zero (Some r) = r"

text \<open>
  \<open>getExchangeRate\<close>. The second argument is the outcome of the GET. The body of the
  \<open>try\<close> block throws where the awaited GET rejects; the \<open>catch\<close> block answers every
  error with \<open>null\<close>. The result is a sum so that raising to the caller is an outcome
  the function could have.
\<close>

definition getExchangeRate_try ::
  "string \<Rightarrow> ExchangeRateData axios_result \<Rightarrow> exn + js_value" where
  "getExchangeRate_try currency response =
     (case response of
        Rejected err \<Rightarrow> Inl (AxiosError err)
      | Resolved data \<Rightarrow> Inr (or_null (property (rates data) currency)))"

definition getExchangeRate ::
  "string \<Rightarrow> ExchangeRateData axios_result \<Rightarrow> exn + js_value" where
  "getExchangeRate currency response =
     (case getExchangeRate_try currency response of
        Inl err \<Rightarrow> Inr Null
      | Inr rate \<Rightarrow> Inr rate)"

text \<open>
  \<open>calculateEstimatedGdp\<close>; the first argument is the value \<open>Math.random()\<close> returns.
  \<open>exchangeRate == null\<close> holds of \<open>null\<close> and \<open>undefined\<close> only; a product with
  \<open>NaN\<close>, a function or an object is \<open>NaN\<close>.
\<close>

fun calculateEstimatedGdp :: "number \<Rightarrow> js_value \<Rightarrow> number \<Rightarrow> js_value" where
  "calculateEstimatedGdp rnd Null pop = Null"
| "calculateEstimatedGdp rnd (Number exchangeRate) pop =
     (let multiplier = rnd * (2000 - 1000) + 1000
      in Number (pop * multiplier * exchangeRate))"
| "calculateEstimatedGdp rnd NaN pop = NaN"
| "calculateEstimatedGdp rnd (Inherited f) pop = NaN"

section \<open>The persisted store\<close>

text \<open>
  The Prisma client is an external collaborator; its table \<open>country\<close> is a list of rows
  in insertion order, and \<open>name\<close> is the unique key that \<open>update\<close> and \<open>delete\<close>
  address. What the service relies on is modelled: \<open>create\<close> rejects a second row with
  the same name and a data object whose \<open>Float?\<close> columns hold anything but a number
  or \<open>null\<close>, \<open>update\<close> and \<open>delete\<close> reject when no row has the name (they never
  return \<open>null\<close>), \<open>findFirst\<close> returns \<open>null\<close> when nothing matches.
\<close>

definition country_findFirst :: "Country list \<Rightarrow> string \<Rightarrow> Country option" where
  "country_findFirst rows n = find (\<lambda>r. name r = n) rows"

text \<open>
  What a \<open>Float?\<close> column stores for a value of the data object; \<open>None\<close> where the
  client refuses the value. (The service hands over \<open>NaN\<close> only as \<open>estimated_gdp\<close>
  next to a function or object as \<open>exchange_rate\<close>, which is refused in any case.)
\<close>

fun float_column :: "js_value \<Rightarrow> number option option" where
  "float_column Null = Some None"
| "float_column (Number x) = Some (Some x)"
| "float_column NaN = None"
| "float_column (Inherited f) = None"

definition country_create ::
  "Country list \<Rightarrow> js_value country_columns \<Rightarrow> exn + Country list" where
  "country_create rows data =
     (case (float_column (exchange_rate data), float_column (estimated_gdp data)) of
        (Some rate, Some gdp) \<Rightarrow>
          (case country_findFirst rows (name data) of
             Some r \<Rightarrow> Inl (PrismaError Create)
           | None \<Rightarrow>
               Inr (rows @ [\<lparr>name = name data, capital = capital data, region = region data,
                             population = population data,
                             currency_code = currency_code data, exchange_rate = rate,
                             estimated_gdp = gdp, flag_url = flag_url data\<rparr>]))
      | _ \<Rightarrow> Inl (PrismaError Create))"

definition country_update ::
  "Country list \<Rightarrow> string \<Rightarrow> (Country \<Rightarrow> Country) \<Rightarrow> exn + Country list" where
  "country_update rows n data =
     (case country_findFirst rows n of
        None \<Rightarrow> Inl (PrismaError Update)
      | Some r \<Rightarrow> Inr (map (\<lambda>r. if name r = n then data r else r) rows))"

definition country_delete ::
  "Country list \<Rightarrow> string \<Rightarrow> exn + (Country option \<times> Country list)" where
  "country_delete rows n =
     (case country_findFirst rows n of
        None \<Rightarrow> Inl (PrismaError Delete)
      | Some r \<Rightarrow> Inr (Some r, filter (\<lambda>r. name r \<noteq> n) rows))"

definition country_count :: "Country list \<Rightarrow> nat" where
  "country_count rows = length rows"

subsection \<open>findMany: filter, order, take\<close>

datatype sort_order = asc | desc

text \<open>The object \<open>filters\<close> of \<open>getAllCountries\<close>, with the three keys it may get.\<close>

record filters =
  region_equals :: "string option"
  currency_code_equals :: "string option"
  sort :: "sort_order option"

definition no_filters :: filters where
  "no_filters = \<lparr>region_equals = None, currency_code_equals = None, sort = None\<rparr>"

definition matches :: "filters \<Rightarrow> Country \<Rightarrow> bool" where
  "matches f r =
     ((case region_equals f of None \<Rightarrow> True | Some x \<Rightarrow> region r = x)
      \<and> (case currency_code_equals f of None \<Rightarrow> True | Some x \<Rightarrow> currency_code r = Some x))"

text \<open>Ascending order of a nullable number as the database defines it.\<close>

fun gdp_le :: "bool \<Rightarrow> number option \<Rightarrow> number option \<Rightarrow> bool" where
  "gdp_le nl None None = True"
| "gdp_le nl None (Some b) = (\<not> nl)"
| "gdp_le nl (Some a) None = nl"
| "gdp_le nl (Some a) (Some b) = (a \<le> b)"

fun insort_by :: "('a \<Rightarrow> 'a \<Rightarrow> bool) \<Rightarrow> 'a \<Rightarrow> 'a list \<Rightarrow> 'a list" where
  "insort_by le x [] = [x]"
| "insort_by le x (y # ys) = (if le x y then x # y # ys else y # insort_by le x ys)"

definition sort_by :: "('a \<Rightarrow> 'a \<Rightarrow> bool) \<Rightarrow> 'a list \<Rightarrow> 'a list" where
  "sort_by le xs = foldr (insort_by le) xs []"

text \<open>
  \<open>orderBy: {estimated_gdp: o}\<close>; an undefined \<open>o\<close> orders nothing. Rows with equal keys
  keep their table order.
\<close>

fun orderBy_estimated_gdp :: "platform \<Rightarrow> sort_order option \<Rightarrow> Country list \<Rightarrow> Country list" where
  "orderBy_estimated_gdp cfg None rows = rows"
| "orderBy_estimated_gdp cfg (Some asc) rows =
     sort_by (\<lambda>a b. gdp_le (nulls_largest cfg) (estimated_gdp a) (estimated_gdp b)) rows"
| "orderBy_estimated_gdp cfg (Some desc) rows =
     sort_by (\<lambda>a b. gdp_le (nulls_largest cfg) (estimated_gdp b) (estimated_gdp a)) rows"

definition country_findMany ::
  "platform \<Rightarrow> Country list \<Rightarrow> filters \<Rightarrow> sort_order option \<Rightarrow> exn + Country list" where
  "country_findMany cfg rows f ord =
     (if rejects_unknown_key cfg \<and> sort f \<noteq> None then Inl (PrismaError FindMany)
      else Inr (orderBy_estimated_gdp cfg ord (filter (matches f) rows)))"

section \<open>ReportRenderer\<close>

text \<open>
  The SVG document is kept as the data it is built from: the canvas size, the total, one
  text line per listed country and the time stamp. \<open>toFixed(2)\<close> is not applied: the
  line holds the quotient itself. The non-null assertion on \<open>estimated_gdp\<close> is erased
  at run time, and \<open>null / 1e9\<close> is \<open>0\<close>.
\<close>

record svg_text =
  y :: nat
  rank :: nat
  label :: string
  gdpBillions :: number

record svg =
  width :: nat
  height :: nat
  totalCountries :: nat
  countryItems :: "svg_text list"
  timestamp :: nat

definition generateSVG :: "nat \<Rightarrow> nat \<Rightarrow> TopCountries list \<Rightarrow> svg" where
  "generateSVG time cnt topCountries =
     (let yPos = 210;
          lineSpacing = 40;
          w = 800;
          h = yPos + length topCountries * lineSpacing + 100;
          items = map (\<lambda>(index, country).
                    \<lparr>y = yPos + index * lineSpacing, rank = index + 1, label = fst country,
                     gdpBillions = or_zero (snd country) / 1000000000\<rparr>)
                    (enumerate 0 topCountries)
      in \<lparr>width = w, height = h, totalCountries = cnt, countryItems = items,
          timestamp = time\<rparr>)"

text \<open>
  What the environment does while one awaited call is in flight: whether the store
  rejects, whether the raster encoder rejects, the value of \<open>Math.random()\<close>, the outcome
  of the GET to the exchange-rate source, and the wall clock.
\<close>

record env =
  store_down :: bool
  encoder_fails :: bool
  random :: number
  exchange :: "ExchangeRateData axios_result"
  now :: nat

text \<open>
  \<open>findMany({orderBy: {estimated_gdp: 'desc'}, take: 5, select: {name, estimated_gdp}})\<close>
\<close>

definition top5 :: "platform \<Rightarrow> Country list \<Rightarrow> TopCountries list" where
  "top5 cfg rows =
     map (\<lambda>r. (name r, estimated_gdp r)) (take 5 (orderBy_estimated_gdp cfg (Some desc) rows))"

text \<open>
  \<open>generateSummaryImage\<close>: the value returned is the new content of
  \<open>cache/summary.png\<close>, the bitmap being represented by the document it encodes.
\<close>

definition generateSummaryImage :: "platform \<Rightarrow> env \<Rightarrow> Country list \<Rightarrow> exn + svg" where
  "generateSummaryImage cfg e rows =
     (if store_down e then Inl (PrismaError Count)
      else
        (let cnt = country_count rows;
             topCountries = top5 cfg rows;
             svgContent = generateSVG (now e) cnt topCountries
         in if encoder_fails e then Inl SharpError else Inr svgContent))"

section \<open>Query and delete operations of the service\<close>

text \<open>
  The \<open>catch\<close> block shared by \<open>getSingleCountry\<close>, \<open>deleteCountry\<close>, \<open>getAllCountries\<close>
  and \<open>getStatus\<close>.
\<close>

definition catch_rethrow :: "exn + 'a \<Rightarrow> exn + 'a" where
  "catch_rethrow r =
     (case r of
        Inl err \<Rightarrow>
          if instanceof_HttpException err then Inl err
          else Inl (HttpException INTERNAL_SERVER_ERROR ''Internal server Error'')
      | Inr v \<Rightarrow> Inr v)"

definition awaited :: "bool \<Rightarrow> db_op \<Rightarrow> exn + 'a \<Rightarrow> exn + 'a" where
  "awaited down op r = (if down then Inl (PrismaError op) else r)"

definition deleteCountry ::
  "bool \<Rightarrow> Country list \<Rightarrow> string \<Rightarrow> exn + (Country option \<times> Country list)" where
  "deleteCountry down rows n = catch_rethrow (awaited down Delete (country_delete rows n))"

text \<open>\<open>CountriesController.deleteCountry\<close>; the value is the response body.\<close>

definition controller_deleteCountry ::
  "bool \<Rightarrow> Country list \<Rightarrow> string \<Rightarrow> exn + (string \<times> Country list)" where
  "controller_deleteCountry down rows n =
     (case deleteCountry down rows n of
        Inl err \<Rightarrow> Inl err
      | Inr (None, rows') \<Rightarrow> Inl (NotFoundException (''Country with Name '' @ n @ '' not found''))
      | Inr (Some deleted, rows') \<Rightarrow> Inr (''Country deleted successfully'', rows'))"

text \<open>The object \<open>filters\<close> as \<open>getAllCountries\<close> fills it from its three arguments.\<close>

definition build_filters ::
  "platform \<Rightarrow> string option \<Rightarrow> string option \<Rightarrow> string option \<Rightarrow> filters" where
  "build_filters cfg rg currency srt =
     (let f1 = (case rg of
                  Some r \<Rightarrow> if truthy rg
                            then no_filters\<lparr>region_equals := Some (capitalizeFirstWord cfg r)\<rparr>
                            else no_filters
                | None \<Rightarrow> no_filters);
          f2 = (case currency of
                  Some c \<Rightarrow> if truthy currency
                            then f1\<lparr>currency_code_equals := Some (toUpperCase cfg c)\<rparr>
                            else f1
                | None \<Rightarrow> f1)
      in if srt = Some ''gdp_asc'' then f2\<lparr>sort := Some asc\<rparr>
         else if srt = Some ''gdp_desc'' then f2\<lparr>sort := Some desc\<rparr>
         else f2)"

definition getAllCountries_try ::
  "platform \<Rightarrow> bool \<Rightarrow> Country list \<Rightarrow> string option \<Rightarrow> string option \<Rightarrow> string option
    \<Rightarrow> exn + Country list" where
  "getAllCountries_try cfg down rows rg currency srt =
     (if \<not> truthy rg \<and> \<not> truthy currency \<and> \<not> truthy srt
      then awaited down FindMany (country_findMany cfg rows no_filters None)
      else
        (let f = build_filters cfg rg currency srt
         in case awaited down FindMany (country_findMany cfg rows f (sort f)) of
              Inl err \<Rightarrow> Inl err
            | Inr country \<Rightarrow>
                if country = [] then Inl (NotFoundException ''Country not found'')
                else Inr country))"

definition getAllCountries ::
  "platform \<Rightarrow> bool \<Rightarrow> Country list \<Rightarrow> string option \<Rightarrow> string option \<Rightarrow> string option
    \<Rightarrow> exn + Country list" where
  "getAllCountries cfg down rows rg currency srt =
     catch_rethrow (getAllCountries_try cfg down rows rg currency srt)"

section \<open>ReconciliationEngine: uploadCountry\<close>

text \<open>\<open>country.currencies?.[0]?.code ?? null\<close>\<close>

fun currencyCode_of :: "CurrencyData list option \<Rightarrow> string option" where
  "currencyCode_of None = None"
| "currencyCode_of (Some []) = None"
| "currencyCode_of (Some (c # cs)) = Some (code c)"

text \<open>\<open>Math.floor(Math.random() * (2000 - 1000 + 1)) + 1000\<close>, the update path's multiplier.\<close>

definition update_multiplier :: "number \<Rightarrow> number" where
  "update_multiplier rnd = of_int (floor (rnd * (2000 - 1000 + 1))) + 1000"

text \<open>The object \<open>data\<close> passed to \<open>update\<close>: the seven columns it assigns.\<close>

definition update_data :: "Countries \<Rightarrow> Country \<Rightarrow> number \<Rightarrow> Country \<Rightarrow> Country" where
  "update_data country existing refetched_estimated_gdp r =
     r\<lparr>capital := capital country,
       region := region country,
       population := population country,
       currency_code := currency_code existing,
       exchange_rate := exchange_rate existing,
       estimated_gdp := Some refetched_estimated_gdp,
       flag_url := flag_url existing\<rparr>"

text \<open>The object \<open>newCountry\<close> that is handed to \<open>create\<close>.\<close>

definition newCountry ::
  "platform \<Rightarrow> Countries \<Rightarrow> string option \<Rightarrow> js_value \<Rightarrow> js_value
    \<Rightarrow> js_value country_columns" where
  "newCountry cfg country currencyCode exchangeRate gdp =
     \<lparr>name = toLowerCase cfg (name country),
      capital = capital country,
      region = region country,
      population = population country,
      currency_code = currencyCode,
      exchange_rate = exchangeRate,
      estimated_gdp = gdp,
      flag_url = flag country\<rparr>"

text \<open>The object an item task returns: \<open>{status, country}\<close> or \<open>{status: 'failed', country, error}\<close>.\<close>

datatype item_result = Created string | Updated string | Failed string exn

text \<open>
  An item task is the \<open>async\<close> callback of \<open>batch.map\<close>. It runs until its next
  \<open>await\<close> and is resumed when the awaited call settles; a task is represented by the
  \<open>await\<close> it is suspended at, with the local variables it still needs.
\<close>

datatype task =
    AwaitFindFirst Countries
  | AwaitUpdate Countries Country number
  | AwaitExchangeRate Countries string
  | AwaitCreate Countries "js_value country_columns"
  | AwaitSummaryImage Countries item_result
  | Fulfilled item_result

text \<open>
  The state a run works on: the table, the cached report, the counters of
  \<open>uploadCountry\<close>, and two observation fields that the service does not have: the
  number of task resumptions so far and the log of task starts and settlements (items
  numbered by their position in the dataset).
\<close>

datatype event = Started nat | Settled nat item_result

record run_state =
  db :: "Country list"
  cache :: "svg option"
  created :: nat
  updated :: nat
  processed :: nat
  clock :: nat
  events :: "event list"

text \<open>
  Resuming a task: the awaited call takes effect on the store, and the callback runs on
  to its next \<open>await\<close> or to its \<open>return\<close>. The \<open>catch\<close> of the callback turns every
  exception into a \<open>failed\<close> result; that holds of an exception out of
  \<open>getExchangeRate\<close> as well, a branch that is never taken (\<open>getExchangeRate_fulfils\<close>
  below).
\<close>

fun resume :: "platform \<Rightarrow> env \<Rightarrow> task \<Rightarrow> run_state \<Rightarrow> task \<times> run_state" where
  "resume cfg e (AwaitFindFirst country) st =
     (if store_down e then (Fulfilled (Failed (name country) (PrismaError FindFirst)), st)
      else
        (case country_findFirst (db st) (toLowerCase cfg (name country)) of
           Some existing \<Rightarrow>
             (let multiplier = update_multiplier (random e);
                  refetched_estimated_gdp =
                    population country * or_zero (exchange_rate existing) * multiplier
              in (AwaitUpdate country existing refetched_estimated_gdp, st))
         | None \<Rightarrow>
             (let currencyCode = currencyCode_of (currencies country)
              in case currencyCode of
                   None \<Rightarrow>
                     (AwaitCreate country
                        (newCountry cfg country currencyCode Null
                           (calculateEstimatedGdp (random e) Null (population country))), st)
                 | Some cc \<Rightarrow>
                     if truthy currencyCode then (AwaitExchangeRate country cc, st)
                     else
                       (AwaitCreate country
                          (newCountry cfg country currencyCode Null
                             (calculateEstimatedGdp (random e) Null (population country))),
                        st))))"
| "resume cfg e (AwaitExchangeRate country cc) st =
     (case getExchangeRate cc (exchange e) of
        Inl itemErr \<Rightarrow> (Fulfilled (Failed (name country) itemErr), st)
      | Inr exchangeRate \<Rightarrow>
          (let gdp = calculateEstimatedGdp (random e) exchangeRate (population country)
           in (AwaitCreate country (newCountry cfg country (Some cc) exchangeRate gdp), st)))"
| "resume cfg e (AwaitUpdate country existing gdp) st =
     (case awaited (store_down e) Update
             (country_update (db st) (toLowerCase cfg (name country))
                (update_data country existing gdp)) of
        Inl itemErr \<Rightarrow> (Fulfilled (Failed (name country) itemErr), st)
      | Inr rows \<Rightarrow>
          (AwaitSummaryImage country (Updated (name country)),
           st\<lparr>db := rows, updated := updated st + 1\<rparr>))"
| "resume cfg e (AwaitCreate country new) st =
     (case awaited (store_down e) Create (country_create (db st) new) of
        Inl itemErr \<Rightarrow> (Fulfilled (Failed (name country) itemErr), st)
      | Inr rows \<Rightarrow>
          (AwaitSummaryImage country (Created (name country)),
           st\<lparr>db := rows, created := created st + 1\<rparr>))"
| "resume cfg e (AwaitSummaryImage country res) st =
     (case generateSummaryImage cfg e (db st) of
        Inl itemErr \<Rightarrow> (Fulfilled (Failed (name country) itemErr), st)
      | Inr png \<Rightarrow> (Fulfilled res, st\<lparr>cache := Some png\<rparr>))"
| "resume cfg e (Fulfilled res) st = (Fulfilled res, st)"

fun fulfilled :: "task \<Rightarrow> bool" where
  "fulfilled (Fulfilled res) = True"
| "fulfilled t = False"

text \<open>The number of resumptions a task can still need.\<close>

fun awaits_left :: "task \<Rightarrow> nat" where
  "awaits_left (AwaitFindFirst country) = 4"
| "awaits_left (AwaitExchangeRate country cc) = 3"
| "awaits_left (AwaitUpdate country existing gdp) = 2"
| "awaits_left (AwaitCreate country new) = 2"
| "awaits_left (AwaitSummaryImage country res) = 1"
| "awaits_left (Fulfilled res) = 0"

definition pending :: "task list \<Rightarrow> nat list" where
  "pending ts = filter (\<lambda>j. \<not> fulfilled (ts ! j)) [0..<length ts]"

fun settle_event :: "nat \<Rightarrow> task \<Rightarrow> event list" where
  "settle_event i (Fulfilled res) = [Settled i res]"
| "settle_event i t = []"

lemma getExchangeRate_fulfils [simp]: "getExchangeRate cc response \<noteq> Inl err"
  by (simp add: getExchangeRate_def split: sum.splits)

lemma resume_awaits_left:
  "\<not> fulfilled t \<Longrightarrow> awaits_left (fst (resume cfg e t st)) < awaits_left t"
  by (cases t) (auto simp: Let_def split: option.splits sum.splits)

lemma pending_mem: "j \<in> set (pending ts) \<Longrightarrow> j < length ts \<and> \<not> fulfilled (ts ! j)"
  by (auto simp: pending_def)

lemma sum_list_update_less:
  "j < length ts \<Longrightarrow> awaits_left t < awaits_left (ts ! j)
    \<Longrightarrow> sum_list (map awaits_left (ts[j := t])) < sum_list (map awaits_left ts)"
  by (induction ts arbitrary: j) (auto split: nat.splits)

text \<open>
  One turn of the event loop while a batch is in flight: one suspended task of the batch
  is resumed. The schedule \<open>sched\<close> gives, for every turn of the run, which of the
  suspended tasks it is (an index into the suspended ones, taken modulo their number)
  and what the environment does. \<open>i0\<close> is the dataset position of the batch's first
  item.
\<close>

definition turn ::
  "platform \<Rightarrow> (nat \<Rightarrow> nat \<times> env) \<Rightarrow> nat \<Rightarrow> task list \<Rightarrow> run_state
    \<Rightarrow> task list \<times> run_state" where
  "turn cfg sched i0 ts st =
     (let j = pending ts ! (fst (sched (clock st)) mod length (pending ts));
          e = snd (sched (clock st));
          t = fst (resume cfg e (ts ! j) st);
          st' = snd (resume cfg e (ts ! j) st)
      in (ts[j := t],
          st'\<lparr>clock := clock st + 1, events := events st' @ settle_event (i0 + j) t\<rparr>))"

lemma turn_resumes:
  assumes "pending ts \<noteq> []"
  shows "\<exists>j e. j < length ts \<and> \<not> fulfilled (ts ! j)
    \<and> turn cfg sched i0 ts st
        = (ts[j := fst (resume cfg e (ts ! j) st)],
           (snd (resume cfg e (ts ! j) st))
             \<lparr>clock := clock st + 1,
              events := events (snd (resume cfg e (ts ! j) st))
                         @ settle_event (i0 + j) (fst (resume cfg e (ts ! j) st))\<rparr>)"
proof -
  let ?j = "pending ts ! (fst (sched (clock st)) mod length (pending ts))"
  have "?j \<in> set (pending ts)"
    using assms by simp
  then have "?j < length ts \<and> \<not> fulfilled (ts ! ?j)"
    by (rule pending_mem)
  then show ?thesis
    unfolding turn_def Let_def by blast
qed

lemma turn_decreases:
  assumes "pending ts \<noteq> []"
  shows "sum_list (map awaits_left (fst (turn cfg sched i0 ts st)))
    < sum_list (map awaits_left ts)"
proof -
  obtain j e where "j < length ts" "\<not> fulfilled (ts ! j)"
    and "fst (turn cfg sched i0 ts st) = ts[j := fst (resume cfg e (ts ! j) st)]"
    using turn_resumes [OF assms, of cfg sched i0 st] by fastforce
  then show ?thesis
    using resume_awaits_left sum_list_update_less by simp
qed

text \<open>
  \<open>await Promise.allSettled(batch.map(...))\<close>: turns are taken until every task of the
  batch has returned.
\<close>

function run_tasks ::
  "platform \<Rightarrow> (nat \<Rightarrow> nat \<times> env) \<Rightarrow> nat \<Rightarrow> task list \<Rightarrow> run_state
    \<Rightarrow> task list \<times> run_state" where
  "run_tasks cfg sched i0 ts st =
     (if pending ts = [] then (ts, st)
      else run_tasks cfg sched i0 (fst (turn cfg sched i0 ts st))
             (snd (turn cfg sched i0 ts st)))"
  by pat_completeness auto
termination
  by (relation "measure (\<lambda>(cfg, sched, i0, ts, st). sum_list (map awaits_left ts))")
     (simp_all add: turn_decreases case_prod_beta)

declare run_tasks.simps [simp del]

text \<open>\<open>xs.slice(a, b)\<close> for \<open>0 \<le> a \<le> b\<close>.\<close>

definition slice :: "'a list \<Rightarrow> nat \<Rightarrow> nat \<Rightarrow> 'a list" where
  "slice xs a b = take (b - a) (drop a xs)"

definition batchSize :: nat where
  "batchSize = 10"

text \<open>The \<open>for\<close> loop of \<open>uploadCountry\<close>, from loop variable \<open>i\<close> on.\<close>

function batch_loop ::
  "platform \<Rightarrow> (nat \<Rightarrow> nat \<times> env) \<Rightarrow> Countries list \<Rightarrow> nat \<Rightarrow> run_state \<Rightarrow> run_state" where
  "batch_loop cfg sched data i st =
     (if i < length data then
        (let batch = slice data i (i + batchSize);
             st1 = st\<lparr>events := events st @ map Started [i..<i + length batch]\<rparr>;
             st2 = snd (run_tasks cfg sched i (map AwaitFindFirst batch) st1)
         in batch_loop cfg sched data (i + batchSize)
              (st2\<lparr>processed := processed st2 + length batch\<rparr>))
      else st)"
  by pat_completeness auto
termination
  by (relation "measure (\<lambda>(cfg, sched, data, i, st). length data - i)")
     (auto simp: batchSize_def)

declare batch_loop.simps [simp del]

text \<open>\<open>response.data\<close> of the GET to the country source.\<close>

datatype payload = Array "Countries list" | NotArray

definition start_state :: "Country list \<Rightarrow> svg option \<Rightarrow> run_state" where
  "start_state rows png =
     \<lparr>db = rows, cache = png, created = 0, updated = 0, processed = 0, clock = 0,
      events = []\<rparr>"

text \<open>
  The body of the outer \<open>try\<close>. The result object is the list of its keys and values.
\<close>

definition uploadCountry_try ::
  "platform \<Rightarrow> string option \<Rightarrow> payload axios_result \<Rightarrow> (nat \<Rightarrow> nat \<times> env)
    \<Rightarrow> Country list \<Rightarrow> svg option \<Rightarrow> (exn + (string \<times> nat) list) \<times> run_state" where
  "uploadCountry_try cfg api_countries response sched rows png =
     (if \<not> truthy api_countries
      then (Inl (HttpException INTERNAL_SERVER_ERROR ''COUNTRY_DATA_API is not defined''),
            start_state rows png)
      else
        (case response of
           Rejected apiErr \<Rightarrow>
             (Inl (HttpException SERVICE_UNAVAILABLE ''External data source unavailable''),
              start_state rows png)
         | Resolved NotArray \<Rightarrow>
             (Inl (Error ''Invalid API response: expected array''), start_state rows png)
         | Resolved (Array data) \<Rightarrow>
             (let st = batch_loop cfg sched data 0 (start_state rows png)
              in (Inr [(''created'', created st), (''updated'', updated st),
                       (''total'', processed st)], st))))"

text \<open>The outer \<open>catch\<close> replaces whatever was thrown.\<close>

definition uploadCountry ::
  "platform \<Rightarrow> string option \<Rightarrow> payload axios_result \<Rightarrow> (nat \<Rightarrow> nat \<times> env)
    \<Rightarrow> Country list \<Rightarrow> svg option \<Rightarrow> (exn + (string \<times> nat) list) \<times> run_state" where
  "uploadCountry cfg api_countries response sched rows png =
     (case uploadCountry_try cfg api_countries response sched rows png of
        (Inl err, st) \<Rightarrow>
          (Inl (HttpException INTERNAL_SERVER_ERROR ''Failed to upload countries''), st)
      | (Inr v, st) \<Rightarrow> (Inr v, st))"

section \<open>Observations on a run\<close>

text \<open>The \<open>country\<close> field of a task's result object.\<close>

fun result_country :: "item_result \<Rightarrow> string" where
  "result_country (Created n) = n"
| "result_country (Updated n) = n"
| "result_country (Failed n err) = n"

text \<open>
  A \<open>failed\<close> result whose error was thrown by \<open>findFirst\<close>, \<open>update\<close> or \<open>create\<close>, that
  is before the task reached \<open>created++\<close> or \<open>updated++\<close>. (The other errors a task can
  catch are thrown by \<open>generateSummaryImage\<close>, after the increment.)
\<close>

fun failed_before_write :: "item_result \<Rightarrow> bool" where
  "failed_before_write (Failed n err) =
     (err = PrismaError FindFirst \<or> err = PrismaError Update \<or> err = PrismaError Create)"
| "failed_before_write (Created n) = False"
| "failed_before_write (Updated n) = False"

fun is_failed :: "item_result \<Rightarrow> bool" where
  "is_failed (Failed n err) = True"
| "is_failed (Created n) = False"
| "is_failed (Updated n) = False"

fun event_item :: "event \<Rightarrow> nat" where
  "event_item (Started i) = i"
| "event_item (Settled i res) = i"

fun event_result :: "event \<Rightarrow> item_result list" where
  "event_result (Started i) = []"
| "event_result (Settled i res) = [res]"

text \<open>The results of the settled tasks of a log, in the order of settlement.\<close>

definition item_results :: "event list \<Rightarrow> item_result list" where
  "item_results evs = concat (map event_result evs)"

fun settles_item :: "Countries list \<Rightarrow> event \<Rightarrow> bool" where
  "settles_item data (Settled i res) = (i < length data \<and> result_country res = name (data ! i))"
| "settles_item data (Started i) = False"

text \<open>
  The log of one batch, for the batch that starts at dataset position \<open>off\<close> and has
  \<open>len\<close> items: first the starts of its items in dataset order, then settlements only,
  one for each of its items, each with a result for that item.
\<close>

definition batch_segment :: "Countries list \<Rightarrow> nat \<Rightarrow> nat \<Rightarrow> event list \<Rightarrow> bool" where
  "batch_segment data off len seg =
     (take len seg = map Started [off..<off + len]
      \<and> list_all (settles_item data) (drop len seg)
      \<and> distinct (map event_item (drop len seg))
      \<and> set (map event_item (drop len seg)) = set [off..<off + len])"

text \<open>
  The iterations of the \<open>for\<close> loop from loop variable \<open>i\<close> on: the value of \<open>i\<close> and the
  slice \<open>batch\<close> of each.
\<close>

function iterations :: "'a list \<Rightarrow> nat \<Rightarrow> (nat \<times> 'a list) list" where
  "iterations data i =
     (if i < length data
      then (i, slice data i (i + batchSize)) # iterations data (i + batchSize)
      else [])"
  by pat_completeness auto
termination
  by (relation "measure (\<lambda>(data, i). length data - i)") (auto simp: batchSize_def)

declare iterations.simps [simp del]

text \<open>Whether dataset position \<open>i\<close> belongs to an iteration of the loop.\<close>

fun in_batch :: "nat \<times> 'a list \<Rightarrow> nat \<Rightarrow> bool" where
  "in_batch (off, b) i = (off \<le> i \<and> i < off + length b)"

text \<open>Proof devices: the item a task works for, and whether it is still before its write.\<close>

fun serves :: "Countries \<Rightarrow> task \<Rightarrow> bool" where
  "serves c (AwaitFindFirst country) = (country = c)"
| "serves c (AwaitUpdate country existing gdp) = (country = c)"
| "serves c (AwaitExchangeRate country cc) = (country = c)"
| "serves c (AwaitCreate country new) = (country = c)"
| "serves c (AwaitSummaryImage country res) =
     (country = c \<and> result_country res = name c \<and> \<not> failed_before_write res)"
| "serves c (Fulfilled res) = (result_country res = name c)"

fun before_write :: "task \<Rightarrow> nat" where
  "before_write (AwaitFindFirst country) = 1"
| "before_write (AwaitUpdate country existing gdp) = 1"
| "before_write (AwaitExchangeRate country cc) = 1"
| "before_write (AwaitCreate country new) = 1"
| "before_write (AwaitSummaryImage country res) = 0"
| "before_write (Fulfilled res) = 0"

fun newly_failed :: "task \<Rightarrow> nat" where
  "newly_failed (Fulfilled res) = (if failed_before_write res then 1 else 0)"
| "newly_failed t = 0"

text \<open>
  What holds between the turns of one batch: \<open>st0\<close> is the state when the batch's tasks
  had been started, \<open>n\<close> the number of its items.
\<close>

definition batch_inv ::
  "Countries list \<Rightarrow> nat \<Rightarrow> nat \<Rightarrow> run_state \<Rightarrow> task list \<Rightarrow> run_state \<Rightarrow> bool" where
  "batch_inv data i0 n st0 ts st =
     (length ts = n \<and> i0 + n \<le> length data
      \<and> (\<forall>j<n. serves (data ! (i0 + j)) (ts ! j))
      \<and> (\<exists>ss. events st = events st0 @ ss
            \<and> list_all (settles_item data) ss
            \<and> distinct (map event_item ss)
            \<and> set (map event_item ss) = {i0 + j |j. j < n \<and> fulfilled (ts ! j)}
            \<and> created st + updated st + sum_list (map before_write ts)
                + length (filter failed_before_write (item_results ss))
              = created st0 + updated st0 + n)
      \<and> length (db st) + created st0 = length (db st0) + created st
      \<and> processed st = processed st0)"

text \<open>The columns of a row that a run is to leave alone once the row exists.\<close>

definition frame :: "Country \<Rightarrow> string \<times> string option \<times> number option \<times> string" where
  "frame r = (name r, currency_code r, exchange_rate r, flag_url r)"

text \<open>
  Proof device: a task suspended at \<open>update\<close> holds a row it has read under the name it
  is about to write to, and that row's protected columns are still in the table.
\<close>

fun keeps_frame :: "platform \<Rightarrow> Country list \<Rightarrow> task \<Rightarrow> bool" where
  "keeps_frame cfg rows (AwaitUpdate country existing gdp) =
     (name existing = toLowerCase cfg (name country) \<and> frame existing \<in> frame ` set rows)"
| "keeps_frame cfg rows t = True"

definition rows_inv :: "Country list \<Rightarrow> run_state \<Rightarrow> bool" where
  "rows_inv rows0 st =
     (distinct (map name (db st)) \<and> (\<exists>new. map frame (db st) = map frame rows0 @ new))"

section \<open>Worked data\<close>

definition quiet :: env where
  "quiet = \<lparr>store_down = False, encoder_fails = False, random = 1 / 2,
     exchange = Resolved \<lparr>result = ''success'', base_code = ''USD'',
                           rates = [(''EUR'', 11 / 10)]\<rparr>,
     now = 0\<rparr>"

text \<open>
  The worked data is written in ASCII. On a string of ASCII characters the case mappings
  of every engine replace the letters A to Z by a to z, or a to z by A to Z, and nothing
  else; the platform of the worked examples has these mappings, PostgreSQL's ordering
  (\<open>NULL\<close> above every number) and a Prisma client that validates \<open>where\<close>.
\<close>

definition ascii_toLowerCase :: "string \<Rightarrow> string" where
  "ascii_toLowerCase s =
     map (\<lambda>c. if 65 \<le> (of_char c :: nat) \<and> (of_char c :: nat) \<le> 90
              then char_of ((of_char c :: nat) + 32) else c) s"

definition ascii_toUpperCase :: "string \<Rightarrow> string" where
  "ascii_toUpperCase s =
     map (\<lambda>c. if 97 \<le> (of_char c :: nat) \<and> (of_char c :: nat) \<le> 122
              then char_of ((of_char c :: nat) - 32) else c) s"

definition node_postgres :: platform where
  "node_postgres = \<lparr>nulls_largest = True, rejects_unknown_key = True,
     toLowerCase = ascii_toLowerCase, toUpperCase = ascii_toUpperCase\<rparr>"

definition aland :: Countries where
  "aland = \<lparr>name = ''Aland'', capital = ''Mariehamn'', region = ''Europe'',
     population = 30000,
     currencies = Some [\<lparr>code = ''EUR'', currency_name = ''Euro'', symbol = ''E''\<rparr>],
     flag = ''https://flags.example/ax.svg'', independent = ''false''\<rparr>"

definition row :: "string \<Rightarrow> string \<Rightarrow> number option \<Rightarrow> number option \<Rightarrow> Country" where
  "row n rg rate gdp =
     \<lparr>name = n, capital = ''-'', region = rg, population = 1000,
      currency_code = Some ''XYZ'', exchange_rate = rate, estimated_gdp = gdp,
      flag_url = ''-''\<rparr>"

definition nigeria :: Country where
  "nigeria = row ''nigeria'' ''Africa'' (Some 1600) (Some 2400000)"

definition unrated :: Country where
  "unrated = row ''atlantis'' ''Oceania'' None None"

definition six_rows :: "Country list" where
  "six_rows =
     [row ''a'' ''Africa'' (Some 1) (Some 5000000000),
      row ''b'' ''Africa'' (Some 1) (Some 4000000000),
      unrated,
      row ''c'' ''Africa'' (Some 1) (Some 3000000000),
      row ''d'' ''Africa'' (Some 1) (Some 2000000000),
      row ''e'' ''Africa'' (Some 1) (Some 1000000000)]"

definition stored_aland :: Country where
  "stored_aland = row ''aland'' ''Europe'' (Some (11 / 10)) (Some 1)"

definition stored_unrated_aland :: Country where
  "stored_unrated_aland = row ''aland'' ''Europe'' None None"

text \<open>
  Three schedules: tasks resumed in rotation, a run during which the encoder fails, and
  a run during which \<open>Math.random()\<close> returns 1/3.
\<close>

definition round_robin :: "nat \<Rightarrow> nat \<times> env" where
  "round_robin t = (t, quiet)"

definition encoder_down :: "nat \<Rightarrow> nat \<times> env" where
  "encoder_down t = (0, quiet\<lparr>encoder_fails := True\<rparr>)"

definition one_third :: "nat \<Rightarrow> nat \<times> env" where
  "one_third t = (0, quiet\<lparr>random := 1 / 3\<rparr>)"

section \<open>Auxiliary facts\<close>

subsection \<open>Store queries\<close>

lemma catch_rethrow_Inr: "catch_rethrow r = Inr v \<Longrightarrow> r = Inr v"
  by (auto simp: catch_rethrow_def split: sum.splits if_splits)

lemma awaited_Inr: "awaited down op r = Inr v \<Longrightarrow> r = Inr v"
  by (auto simp: awaited_def split: if_splits)

lemma set_insort_by: "set (insort_by le x ys) = insert x (set ys)"
  by (induction ys) auto

lemma set_sort_by: "set (sort_by le xs) = set xs"
  by (induction xs) (simp_all add: sort_by_def set_insort_by)

lemma length_insort_by: "length (insort_by le x ys) = Suc (length ys)"
  by (induction ys) auto

lemma length_sort_by: "length (sort_by le xs) = length xs"
  by (induction xs) (simp_all add: sort_by_def length_insort_by)

lemma set_orderBy: "set (orderBy_estimated_gdp cfg ord rows) = set rows"
  by (cases "(cfg, ord, rows)" rule: orderBy_estimated_gdp.cases) (simp_all add: set_sort_by)

lemma findMany_matches:
  "country_findMany cfg rows f ord = Inr found \<Longrightarrow> c \<in> set found
    \<Longrightarrow> c \<in> set rows \<and> matches f c"
  by (auto simp: country_findMany_def set_orderBy split: if_splits)

lemma build_filters_region:
  "r \<noteq> [] \<Longrightarrow>
    region_equals (build_filters cfg (Some r) currency srt) = Some (capitalizeFirstWord cfg r)"
  by (simp add: build_filters_def Let_def no_filters_def split: option.splits)

lemma capitalizeFirstWord_first:
  "r \<noteq> [] \<Longrightarrow> capitalizeFirstWord cfg r = toUpperCase cfg [hd r] @ tl r"
  by (cases r) (simp_all add: capitalizeFirstWord_def)

lemma getAllCountries_spelling:
  assumes "capitalizeFirstWord cfg r' = capitalizeFirstWord cfg r" and "r' \<noteq> []" and "r \<noteq> []"
  shows "getAllCountries cfg down rows (Some r') currency srt
    = getAllCountries cfg down rows (Some r) currency srt"
proof -
  have "build_filters cfg (Some r') currency srt = build_filters cfg (Some r) currency srt"
    using assms by (simp add: build_filters_def)
  then show ?thesis
    using assms(2,3) by (simp add: getAllCountries_def getAllCountries_try_def)
qed

lemma upper_first_africa:
  "toUpperCase node_postgres [hd ''Africa''] = toUpperCase node_postgres [hd ''africa'']"
  by code_simp

lemma getAllCountries_africa:
  "getAllCountries node_postgres False [nigeria] (Some ''africa'') None None = Inr [nigeria]"
  by code_simp

lemma deleteCountry_absent:
  "country_findFirst rows n = None
    \<Longrightarrow> controller_deleteCountry down rows n = Inl (HttpException 500 ''Internal server Error'')"
  by (simp add: controller_deleteCountry_def deleteCountry_def catch_rethrow_def awaited_def
      country_delete_def INTERNAL_SERVER_ERROR_def)

lemma deleteCountry_never_NotFound:
  "controller_deleteCountry down rows n \<noteq> Inl (HttpException 404 msg)"
  by (auto simp: controller_deleteCountry_def deleteCountry_def catch_rethrow_def awaited_def
      country_delete_def INTERNAL_SERVER_ERROR_def split: option.splits)

lemma deleteCountry_present:
  "country_findFirst rows n = Some r
    \<Longrightarrow> controller_deleteCountry False rows n
        = Inr (''Country deleted successfully'', filter (\<lambda>r. name r \<noteq> n) rows)
      \<and> country_findFirst (filter (\<lambda>r. name r \<noteq> n) rows) n = None"
  by (simp add: controller_deleteCountry_def deleteCountry_def catch_rethrow_def awaited_def
      country_delete_def country_findFirst_def find_None_iff)

subsection \<open>The update path of an item task\<close>

lemma name_update_data [simp]: "name (update_data country existing gdp r) = name r"
  by (simp add: update_data_def)

lemma find_map_same:
  "find (\<lambda>r. name r = n) rows = Some x \<Longrightarrow> (\<And>r. name (f r) = name r)
    \<Longrightarrow> find (\<lambda>r. name r = n) (map (\<lambda>r. if name r = n then f r else r) rows) = Some (f x)"
  by (induction rows) (auto split: if_splits)

lemma find_map_other:
  "m \<noteq> n \<Longrightarrow> (\<And>r. name (f r) = name r)
    \<Longrightarrow> find (\<lambda>r. name r = m) (map (\<lambda>r. if name r = n then f r else r) rows)
        = find (\<lambda>r. name r = m) rows"
  by (induction rows) auto

lemma update_multiplier_range:
  assumes "0 \<le> rnd" and "rnd < 1"
  shows "1000 \<le> update_multiplier rnd \<and> update_multiplier rnd \<le> 2000
    \<and> update_multiplier rnd \<in> \<int>"
proof -
  have "0 \<le> rnd * 1001" using assms by simp
  then have lo: "0 \<le> \<lfloor>rnd * 1001\<rfloor>" by simp
  have "rnd * 1001 < 1001" using assms by simp
  then have "\<lfloor>rnd * 1001\<rfloor> < 1001" by (simp add: floor_less_iff)
  then have hi: "\<lfloor>rnd * 1001\<rfloor> \<le> 1000" by simp
  have a: "(0::rat) \<le> of_int \<lfloor>rnd * 1001\<rfloor>" using lo by simp
  have b: "(of_int \<lfloor>rnd * 1001\<rfloor> :: rat) \<le> 1000" using hi by linarith
  show ?thesis using a b by (simp add: update_multiplier_def)
qed

lemma resume_find_existing:
  assumes "country_findFirst (db st) (toLowerCase cfg (name country)) = Some existing"
    and "\<not> store_down e"
  shows "resume cfg e (AwaitFindFirst country) st
    = (AwaitUpdate country existing
         (population country * or_zero (exchange_rate existing) * update_multiplier (random e)),
       st)"
  using assms by (simp add: Let_def)

text \<open>
  The update takes effect on whatever row has the name when the task is resumed, with
  the values of the row that \<open>findFirst\<close> had returned.
\<close>

lemma resume_update:
  assumes "country_findFirst (db st) (toLowerCase cfg (name country)) = Some cur"
    and "\<not> store_down e"
  shows "resume cfg e (AwaitUpdate country existing gdp) st
    = (AwaitSummaryImage country (Updated (name country)),
       st\<lparr>db := map (\<lambda>r. if name r = toLowerCase cfg (name country)
                          then update_data country existing gdp r else r) (db st),
          updated := updated st + 1\<rparr>)"
  using assms by (simp add: awaited_def country_update_def)

lemma updated_row:
  assumes "country_findFirst rows n = Some cur"
  shows "country_findFirst
           (map (\<lambda>r. if name r = n then update_data country existing gdp r else r) rows) n
         = Some (update_data country existing gdp cur)"
    and "m \<noteq> n \<Longrightarrow> country_findFirst
           (map (\<lambda>r. if name r = n then update_data country existing gdp r else r) rows) m
         = country_findFirst rows m"
    and "map name (map (\<lambda>r. if name r = n then update_data country existing gdp r else r) rows)
         = map name rows"
  using assms
  by (simp_all add: country_findFirst_def find_map_same find_map_other)

lemma findFirst_stored_aland:
  "country_findFirst (db (start_state [stored_aland] None)) (toLowerCase node_postgres (name aland))
    = Some stored_aland"
  by code_simp

lemma findFirst_stored_unrated_aland:
  "country_findFirst (db (start_state [stored_unrated_aland] None)) (toLowerCase node_postgres (name aland))
    = Some stored_unrated_aland"
  by code_simp

lemma quiet_facts: "\<not> store_down quiet" "0 \<le> random quiet" "random quiet < 1"
  "\<not> encoder_fails quiet"
  by (simp_all add: quiet_def)

subsection \<open>Turns of a batch\<close>

lemma run_tasks_done: "pending ts = [] \<Longrightarrow> run_tasks cfg sched i0 ts st = (ts, st)"
  by (subst run_tasks.simps) simp

lemma run_tasks_turn:
  "pending ts \<noteq> [] \<Longrightarrow> run_tasks cfg sched i0 ts st
     = run_tasks cfg sched i0 (fst (turn cfg sched i0 ts st)) (snd (turn cfg sched i0 ts st))"
  by (subst run_tasks.simps) simp

lemma run_tasks_rule:
  assumes init: "I ts st"
    and step: "\<And>ts st. I ts st \<Longrightarrow> pending ts \<noteq> []
      \<Longrightarrow> I (fst (turn cfg sched i0 ts st)) (snd (turn cfg sched i0 ts st))"
  shows "I (fst (run_tasks cfg sched i0 ts st)) (snd (run_tasks cfg sched i0 ts st))
    \<and> pending (fst (run_tasks cfg sched i0 ts st)) = []"
  using init
proof (induction "sum_list (map awaits_left ts)" arbitrary: ts st rule: less_induct)
  case less
  show ?case
  proof (cases "pending ts = []")
    case True
    then show ?thesis using less.prems by (simp add: run_tasks_done)
  next
    case False
    let ?ts = "fst (turn cfg sched i0 ts st)"
    let ?st = "snd (turn cfg sched i0 ts st)"
    have "sum_list (map awaits_left ?ts) < sum_list (map awaits_left ts)"
      using False by (rule turn_decreases)
    moreover have "I ?ts ?st"
      using less.prems False by (rule step)
    ultimately have "I (fst (run_tasks cfg sched i0 ?ts ?st)) (snd (run_tasks cfg sched i0 ?ts ?st))
      \<and> pending (fst (run_tasks cfg sched i0 ?ts ?st)) = []"
      by (rule less.hyps)
    then show ?thesis
      using False by (simp add: run_tasks_turn)
  qed
qed

lemma resume_observed:
  "events (snd (resume cfg e t st)) = events st
   \<and> clock (snd (resume cfg e t st)) = clock st
   \<and> processed (snd (resume cfg e t st)) = processed st"
  by (cases t) (auto simp: Let_def split: option.splits sum.splits)

lemma resume_serves:
  "serves c t \<Longrightarrow> serves c (fst (resume cfg e t st))"
  by (cases t)
     (auto simp: Let_def awaited_def generateSummaryImage_def country_update_def
        country_create_def split: option.splits sum.splits if_splits)

lemma resume_counters:
  assumes "serves c t" and "\<not> fulfilled t"
  shows "created (snd (resume cfg e t st)) + updated (snd (resume cfg e t st))
      + before_write (fst (resume cfg e t st)) + newly_failed (fst (resume cfg e t st))
    = created st + updated st + before_write t"
  using assms
  by (cases t)
     (auto simp: Let_def awaited_def generateSummaryImage_def country_update_def
        country_create_def split: option.splits sum.splits if_splits)

lemma resume_rows:
  "length (db (snd (resume cfg e t st))) + created st
    = length (db st) + created (snd (resume cfg e t st))"
  by (cases t)
     (auto simp: Let_def awaited_def generateSummaryImage_def country_update_def
        country_create_def split: option.splits sum.splits if_splits)


lemma sum_list_map_update:
  "j < length ts \<Longrightarrow>
    sum_list (map f (ts[j := t])) + f (ts ! j) = sum_list (map f ts) + (f t :: nat)"
  by (induction ts arbitrary: j) (auto split: nat.splits)

lemma settle_event_cases:
  "(\<exists>r. t = Fulfilled r \<and> settle_event i t = [Settled i r])
    \<or> (\<not> fulfilled t \<and> settle_event i t = [])"
  by (cases t) auto

lemma newly_failed_settle:
  "length (filter failed_before_write (item_results (settle_event i t))) = newly_failed t"
  by (cases t) (auto simp: item_results_def)

lemma item_results_append: "item_results (xs @ ys) = item_results xs @ item_results ys"
  by (simp add: item_results_def)

lemma fulfilled_items_update:
  assumes "j < length ts" and "\<not> fulfilled (ts ! j)"
  shows "{i0 + k |k. k < length ts \<and> fulfilled (ts[j := t] ! k)}
    = (if fulfilled t then insert (i0 + j) {i0 + k |k. k < length ts \<and> fulfilled (ts ! k)}
       else {i0 + k |k. k < length ts \<and> fulfilled (ts ! k)})"
  using assms by (auto simp: nth_list_update)

lemma batch_inv_turn:
  assumes inv: "batch_inv data i0 n st0 ts st" and pend: "pending ts \<noteq> []"
  shows "batch_inv data i0 n st0 (fst (turn cfg sched i0 ts st)) (snd (turn cfg sched i0 ts st))"
proof -
  obtain j e where j: "j < length ts" and nf: "\<not> fulfilled (ts ! j)"
    and tn: "turn cfg sched i0 ts st
        = (ts[j := fst (resume cfg e (ts ! j) st)],
           (snd (resume cfg e (ts ! j) st))
             \<lparr>clock := clock st + 1,
              events := events (snd (resume cfg e (ts ! j) st))
                         @ settle_event (i0 + j) (fst (resume cfg e (ts ! j) st))\<rparr>)"
    using turn_resumes [OF pend, of cfg sched i0 st] by blast
  define t where "t = fst (resume cfg e (ts ! j) st)"
  define st1 where "st1 = snd (resume cfg e (ts ! j) st)"
  define se where "se = settle_event (i0 + j) t"
  let ?ts = "ts[j := t]"
  let ?st = "st1\<lparr>clock := clock st + 1, events := events st1 @ se\<rparr>"
  have tn': "fst (turn cfg sched i0 ts st) = ?ts" "snd (turn cfg sched i0 ts st) = ?st"
    using tn by (simp_all add: t_def st1_def se_def)
  have len: "length ts = n" and bound: "i0 + n \<le> length data"
    and srv: "\<forall>k<n. serves (data ! (i0 + k)) (ts ! k)"
    and rows: "length (db st) + created st0 = length (db st0) + created st"
    and proc: "processed st = processed st0"
    using inv by (simp_all add: batch_inv_def)
  obtain ss where ev: "events st = events st0 @ ss"
    and ok: "list_all (settles_item data) ss"
    and dist: "distinct (map event_item ss)"
    and items: "set (map event_item ss) = {i0 + k |k. k < n \<and> fulfilled (ts ! k)}"
    and cnt: "created st + updated st + sum_list (map before_write ts)
                + length (filter failed_before_write (item_results ss))
              = created st0 + updated st0 + n"
    using inv unfolding batch_inv_def by blast
  have sj: "serves (data ! (i0 + j)) (ts ! j)"
    using srv j len by simp
  have st': "serves (data ! (i0 + j)) t"
    unfolding t_def using sj by (rule resume_serves)
  have obs: "events st1 = events st" "processed st1 = processed st"
    unfolding st1_def using resume_observed by simp_all
  have c1: "length ?ts = n"
    using len by simp
  have c2: "\<forall>k<n. serves (data ! (i0 + k)) (?ts ! k)"
    using srv st' len j by (auto simp: nth_list_update)
  have fresh: "i0 + j \<notin> set (map event_item ss)"
    using items nf by auto
  have se_cases: "(\<exists>r. t = Fulfilled r \<and> se = [Settled (i0 + j) r]) \<or> (\<not> fulfilled t \<and> se = [])"
    unfolding se_def by (rule settle_event_cases)
  have e1: "events ?st = events st0 @ (ss @ se)"
    using obs ev by simp
  have e2: "list_all (settles_item data) (ss @ se)"
    using ok se_cases st' j len bound by auto
  have e3: "distinct (map event_item (ss @ se))"
    using dist fresh se_cases by force
  have "set (map event_item (ss @ se))
      = (if fulfilled t then insert (i0 + j) (set (map event_item ss))
         else set (map event_item ss))"
    using se_cases by auto
  also have "\<dots> = {i0 + k |k. k < length ts \<and> fulfilled (?ts ! k)}"
    using fulfilled_items_update [OF j nf, of i0 t] items len by simp
  finally have e4: "set (map event_item (ss @ se)) = {i0 + k |k. k < n \<and> fulfilled (?ts ! k)}"
    using len by simp
  have r: "created st1 + updated st1 + before_write t + newly_failed t
      = created st + updated st + before_write (ts ! j)"
    unfolding t_def st1_def using sj nf by (rule resume_counters)
  have s: "sum_list (map before_write ?ts) + before_write (ts ! j)
      = sum_list (map before_write ts) + before_write t"
    using j by (rule sum_list_map_update)
  have f: "length (filter failed_before_write (item_results (ss @ se)))
      = length (filter failed_before_write (item_results ss)) + newly_failed t"
    unfolding se_def by (simp add: item_results_append newly_failed_settle)
  have e5: "created ?st + updated ?st + sum_list (map before_write ?ts)
                + length (filter failed_before_write (item_results (ss @ se)))
              = created st0 + updated st0 + n"
    using r s f cnt by simp
  have c4: "length (db ?st) + created st0 = length (db st0) + created ?st"
    using rows resume_rows [of cfg e "ts ! j" st] by (simp add: st1_def)
  have c5: "processed ?st = processed st0"
    using proc obs by simp
  have "batch_inv data i0 n st0 ?ts ?st"
    unfolding batch_inv_def using c1 bound c2 e1 e2 e3 e4 e5 c4 c5 by blast
  then show ?thesis
    using tn' by simp
qed


lemma pending_Nil: "pending ts = [] \<Longrightarrow> j < length ts \<Longrightarrow> fulfilled (ts ! j)"
  by (auto simp: pending_def filter_empty_conv)

lemma before_write_fulfilled: "fulfilled t \<Longrightarrow> before_write t = 0"
  by (cases t) auto

lemma sum_before_write_done:
  assumes "pending ts = []"
  shows "sum_list (map before_write ts) = 0"
proof -
  have "\<forall>t \<in> set ts. before_write t = 0"
    using assms pending_Nil before_write_fulfilled by (metis in_set_conv_nth)
  then show ?thesis
    by (simp add: sum_list_eq_0_iff)
qed

lemma settled_results_length:
  "list_all (settles_item data) ss \<Longrightarrow> length (item_results ss) = length ss"
proof (induction ss)
  case Nil
  then show ?case by (simp add: item_results_def)
next
  case (Cons a ss)
  then show ?case by (cases a) (simp_all add: item_results_def)
qed

lemma run_tasks_batch:
  assumes bound: "i0 + length batch \<le> length data"
    and items: "\<forall>j<length batch. batch ! j = data ! (i0 + j)"
  shows "\<exists>ss. events (snd (run_tasks cfg sched i0 (map AwaitFindFirst batch) st)) = events st @ ss
      \<and> list_all (settles_item data) ss
      \<and> distinct (map event_item ss)
      \<and> set (map event_item ss) = set [i0..<i0 + length batch]
      \<and> length (item_results ss) = length batch
      \<and> created (snd (run_tasks cfg sched i0 (map AwaitFindFirst batch) st))
          + updated (snd (run_tasks cfg sched i0 (map AwaitFindFirst batch) st))
          + length (filter failed_before_write (item_results ss))
        = created st + updated st + length batch
      \<and> length (db (snd (run_tasks cfg sched i0 (map AwaitFindFirst batch) st))) + created st
        = length (db st) + created (snd (run_tasks cfg sched i0 (map AwaitFindFirst batch) st))
      \<and> processed (snd (run_tasks cfg sched i0 (map AwaitFindFirst batch) st)) = processed st"
proof -
  let ?n = "length batch"
  let ?start = "map AwaitFindFirst batch"
  let ?ts = "fst (run_tasks cfg sched i0 ?start st)"
  let ?st = "snd (run_tasks cfg sched i0 ?start st)"
  have s0: "sum_list (map before_write ?start) = ?n"
    by (induction batch) simp_all
  have init: "batch_inv data i0 ?n st ?start st"
    unfolding batch_inv_def using bound items s0 by (simp add: item_results_def)
  have fin: "batch_inv data i0 ?n st ?ts ?st \<and> pending ?ts = []"
    using init batch_inv_turn by (rule run_tasks_rule)
  then have inv: "batch_inv data i0 ?n st ?ts ?st" and fin_pending: "pending ?ts = []"
    by simp_all
  have len: "length ?ts = ?n"
    using inv by (simp add: batch_inv_def)
  obtain ss where ev: "events ?st = events st @ ss"
    and ok: "list_all (settles_item data) ss"
    and dist: "distinct (map event_item ss)"
    and its: "set (map event_item ss) = {i0 + k |k. k < ?n \<and> fulfilled (?ts ! k)}"
    and cnt: "created ?st + updated ?st + sum_list (map before_write ?ts)
                + length (filter failed_before_write (item_results ss))
              = created st + updated st + ?n"
    using inv unfolding batch_inv_def by blast
  have "{i0 + k |k. k < ?n \<and> fulfilled (?ts ! k)} = {i0 + k |k. k < ?n}"
    using pending_Nil [OF fin_pending] len by auto
  also have "\<dots> = set [i0..<i0 + ?n]"
    by (auto intro: le_Suc_ex simp: nat_le_iff_add)
  finally have its': "set (map event_item ss) = set [i0..<i0 + ?n]"
    using its by simp
  have "card (set (map event_item ss)) = length ss"
    using distinct_card [OF dist] by simp
  then have "length ss = ?n"
    using its' by simp
  then have "length (item_results ss) = ?n"
    using settled_results_length [OF ok] by simp
  moreover have "created ?st + updated ?st
      + length (filter failed_before_write (item_results ss)) = created st + updated st + ?n"
    using cnt sum_before_write_done [OF fin_pending] by simp
  moreover have "length (db ?st) + created st = length (db st) + created ?st"
    and "processed ?st = processed st"
    using inv by (simp_all add: batch_inv_def)
  ultimately show ?thesis
    using ev ok dist its' by blast
qed

subsection \<open>The batch loop\<close>

lemma slice_batch: "slice data i (i + batchSize) = take batchSize (drop i data)"
  by (simp add: slice_def)

lemma iterations_done: "\<not> i < length data \<Longrightarrow> iterations data i = []"
  by (subst iterations.simps) simp

lemma iterations_step:
  "i < length data \<Longrightarrow>
    iterations data i = (i, take batchSize (drop i data)) # iterations data (i + batchSize)"
  by (subst iterations.simps) (simp add: slice_batch)

lemma batch_loop_done: "\<not> i < length data \<Longrightarrow> batch_loop cfg sched data i st = st"
  by (subst batch_loop.simps) simp

lemma batch_loop_step:
  "i < length data \<Longrightarrow>
    batch_loop cfg sched data i st
      = batch_loop cfg sched data (i + batchSize)
          ((snd (run_tasks cfg sched i (map AwaitFindFirst (take batchSize (drop i data)))
                  (st\<lparr>events := events st
                        @ map Started [i..<i + length (take batchSize (drop i data))]\<rparr>)))
           \<lparr>processed :=
              processed (snd (run_tasks cfg sched i
                  (map AwaitFindFirst (take batchSize (drop i data)))
                  (st\<lparr>events := events st
                        @ map Started [i..<i + length (take batchSize (drop i data))]\<rparr>)))
              + length (take batchSize (drop i data))\<rparr>)"
  by (subst batch_loop.simps) (simp add: slice_batch Let_def)

lemma batch_segment_intro:
  assumes "list_all (settles_item data) ss" and "distinct (map event_item ss)"
    and "set (map event_item ss) = set [off..<off + len]"
  shows "batch_segment data off len (map Started [off..<off + len] @ ss)"
  using assms by (simp add: batch_segment_def)

lemma batch_loop_log:
  "\<exists>segs. events (batch_loop cfg sched data i st) = events st @ concat segs
      \<and> list_all2 (\<lambda>(off, b) seg. batch_segment data off (length b) seg)
           (iterations data i) segs
      \<and> length (item_results (concat segs)) = length data - i
      \<and> created (batch_loop cfg sched data i st) + updated (batch_loop cfg sched data i st)
          + length (filter failed_before_write (item_results (concat segs)))
        = created st + updated st + (length data - i)
      \<and> length (db (batch_loop cfg sched data i st)) + created st
        = length (db st) + created (batch_loop cfg sched data i st)
      \<and> processed (batch_loop cfg sched data i st) = processed st + (length data - i)"
proof (induction "length data - i" arbitrary: i st rule: less_induct)
  case less
  show ?case
  proof (cases "i < length data")
    case False
    then have "batch_loop cfg sched data i st = st" and "iterations data i = []"
      by (simp_all add: batch_loop_done iterations_done)
    then show ?thesis
      using False by (intro exI [of _ "[]"]) (simp add: item_results_def)
  next
    case True
    define batch where "batch = take batchSize (drop i data)"
    define n where "n = length batch"
    define st1 where "st1 = st\<lparr>events := events st @ map Started [i..<i + n]\<rparr>"
    define st2 where "st2 = snd (run_tasks cfg sched i (map AwaitFindFirst batch) st1)"
    define st3 where "st3 = st2\<lparr>processed := processed st2 + n\<rparr>"
    let ?fin = "batch_loop cfg sched data (i + batchSize) st3"
    have loop: "batch_loop cfg sched data i st = ?fin"
      using True by (simp add: batch_loop_step batch_def n_def st1_def st2_def st3_def)
    have its: "iterations data i = (i, batch) # iterations data (i + batchSize)"
      using True by (simp add: iterations_step batch_def)
    have n: "n = min batchSize (length data - i)"
      by (simp add: n_def batch_def)
    have n_pos: "0 < n" and bound: "i + n \<le> length data"
      and rest: "length data - i = n + (length data - (i + batchSize))"
      using True n by (simp_all add: batchSize_def)
    have items: "\<forall>j<length batch. batch ! j = data ! (i + j)"
      using True by (simp add: batch_def)
    obtain ss where ev2: "events st2 = events st1 @ ss"
      and ok: "list_all (settles_item data) ss"
      and dist: "distinct (map event_item ss)"
      and cover: "set (map event_item ss) = set [i..<i + n]"
      and len_ss: "length (item_results ss) = n"
      and cnt2: "created st2 + updated st2
          + length (filter failed_before_write (item_results ss))
        = created st1 + updated st1 + n"
      and rows2: "length (db st2) + created st1 = length (db st1) + created st2"
      and proc2: "processed st2 = processed st1"
      using run_tasks_batch [of i batch data cfg sched st1] bound items
      unfolding st2_def n_def by blast
    define seg where "seg = map Started [i..<i + n] @ ss"
    have seg: "batch_segment data i n seg"
      unfolding seg_def using ok dist cover by (rule batch_segment_intro)
    have seg_results: "item_results seg = item_results ss"
      by (simp add: seg_def item_results_def)
    have ev3: "events st3 = events st @ seg"
      using ev2 by (simp add: st3_def st1_def seg_def)
    have "length data - (i + batchSize) < length data - i"
      using True by (simp add: batchSize_def)
    then obtain segs where ev: "events ?fin = events st3 @ concat segs"
      and all2: "list_all2 (\<lambda>(off, b) seg. batch_segment data off (length b) seg)
           (iterations data (i + batchSize)) segs"
      and len: "length (item_results (concat segs)) = length data - (i + batchSize)"
      and cnt: "created ?fin + updated ?fin
          + length (filter failed_before_write (item_results (concat segs)))
        = created st3 + updated st3 + (length data - (i + batchSize))"
      and rows: "length (db ?fin) + created st3 = length (db st3) + created ?fin"
      and proc: "processed ?fin = processed st3 + (length data - (i + batchSize))"
      using less [of "i + batchSize" st3] by blast
    let ?segs = "seg # segs"
    have a: "events (batch_loop cfg sched data i st) = events st @ concat ?segs"
      using loop ev ev3 by simp
    have b: "list_all2 (\<lambda>(off, b) seg. batch_segment data off (length b) seg)
           (iterations data i) ?segs"
      using its all2 seg by (simp add: n_def)
    have c: "length (item_results (concat ?segs)) = length data - i"
      using len len_ss seg_results rest by (simp add: item_results_append)
    have d: "created (batch_loop cfg sched data i st) + updated (batch_loop cfg sched data i st)
          + length (filter failed_before_write (item_results (concat ?segs)))
        = created st + updated st + (length data - i)"
      using cnt cnt2 seg_results rest loop
      by (simp add: item_results_append st3_def st1_def)
    have e: "length (db (batch_loop cfg sched data i st)) + created st
        = length (db st) + created (batch_loop cfg sched data i st)"
      using rows rows2 loop by (simp add: st3_def st1_def)
    have f: "processed (batch_loop cfg sched data i st) = processed st + (length data - i)"
      using proc proc2 rest loop by (simp add: st3_def st1_def)
    show ?thesis
      using a b c d e f by blast
  qed
qed

lemma iterations_concat: "concat (map snd (iterations data i)) = drop i data"
proof (induction "length data - i" arbitrary: i rule: less_induct)
  case less
  show ?case
  proof (cases "i < length data")
    case False
    then show ?thesis by (simp add: iterations_done)
  next
    case True
    then have "length data - (i + batchSize) < length data - i"
      by (simp add: batchSize_def)
    then have "concat (map snd (iterations data (i + batchSize))) = drop (i + batchSize) data"
      by (rule less)
    then have "concat (map snd (iterations data i))
        = take batchSize (drop i data) @ drop (i + batchSize) data"
      using True by (simp add: iterations_step)
    moreover have "drop (i + batchSize) data = drop batchSize (drop i data)"
      by (simp add: add.commute)
    ultimately show ?thesis
      by (simp only: append_take_drop_id)
  qed
qed

lemma iterations_sizes:
  "list_all (\<lambda>b. b \<noteq> [] \<and> length b \<le> batchSize) (map snd (iterations data i))
   \<and> list_all (\<lambda>b. length b = batchSize) (butlast (map snd (iterations data i)))"
proof (induction "length data - i" arbitrary: i rule: less_induct)
  case less
  show ?case
  proof (cases "i < length data")
    case False
    then show ?thesis by (simp add: iterations_done)
  next
    case True
    then have "length data - (i + batchSize) < length data - i"
      by (simp add: batchSize_def)
    then have ih: "list_all (\<lambda>b. b \<noteq> [] \<and> length b \<le> batchSize)
          (map snd (iterations data (i + batchSize)))
        \<and> list_all (\<lambda>b. length b = batchSize)
          (butlast (map snd (iterations data (i + batchSize))))"
      by (rule less)
    have full: "iterations data (i + batchSize) \<noteq> [] \<Longrightarrow>
        length (take batchSize (drop i data)) = batchSize"
    proof -
      assume "iterations data (i + batchSize) \<noteq> []"
      then have "i + batchSize < length data"
        using iterations_done by blast
      then show ?thesis by simp
    qed
    have "0 < batchSize"
      by (simp add: batchSize_def)
    then show ?thesis
      using True ih full by (simp add: iterations_step)
  qed
qed

lemma iterations_nth:
  "k < length (iterations data i) \<Longrightarrow>
    iterations data i ! k
      = (i + k * batchSize, take batchSize (drop (i + k * batchSize) data))"
proof (induction k arbitrary: i)
  case 0
  then have "i < length data"
    using iterations_done by fastforce
  then show ?case by (simp add: iterations_step)
next
  case (Suc k)
  then have lt: "i < length data"
    using iterations_done by fastforce
  then have "k < length (iterations data (i + batchSize))"
    using Suc.prems by (simp add: iterations_step)
  then have "iterations data (i + batchSize) ! k
      = (i + batchSize + k * batchSize,
         take batchSize (drop (i + batchSize + k * batchSize) data))"
    by (rule Suc.IH)
  then show ?case
    using lt by (simp add: iterations_step add.assoc)
qed

lemma iterations_offsets:
  "map fst (iterations data 0) = map (\<lambda>k. k * batchSize) [0..<length (iterations data 0)]"
  by (rule nth_equalityI) (simp_all add: iterations_nth)

lemma segment_split:
  assumes "batch_segment data off len seg"
  shows "seg = map Started [off..<off + len] @ drop len seg"
proof -
  have "take len seg = map Started [off..<off + len]"
    using assms by (simp add: batch_segment_def)
  then have "map Started [off..<off + len] @ drop len seg = take len seg @ drop len seg"
    by simp
  then show ?thesis
    by simp
qed

lemma segment_items:
  assumes "batch_segment data off len seg" and "e \<in> set seg"
  shows "off \<le> event_item e \<and> event_item e < off + len"
proof -
  have "set seg = set (map Started [off..<off + len]) \<union> set (drop len seg)"
    using segment_split [OF assms(1)] set_append by metis
  then have "e \<in> set (map Started [off..<off + len]) \<or> e \<in> set (drop len seg)"
    using assms(2) by simp
  moreover have "set (map event_item (drop len seg)) = set [off..<off + len]"
    using assms(1) by (simp add: batch_segment_def)
  ultimately show ?thesis
    by auto
qed

lemma segment_settled:
  assumes "batch_segment data off len seg" and "off \<le> i" and "i < off + len"
  shows "\<exists>r. Settled i r \<in> set seg"
proof -
  have "i \<in> set (map event_item (drop len seg))"
    using assms by (simp add: batch_segment_def)
  then obtain e where e: "e \<in> set (drop len seg)" and ei: "event_item e = i"
    by auto
  have "list_all (settles_item data) (drop len seg)"
    using assms(1) by (simp add: batch_segment_def)
  then have "settles_item data e"
    using e by (simp add: list_all_iff)
  then obtain r where "e = Settled i r"
    using ei by (cases e) auto
  then show ?thesis
    using e set_drop_subset by fastforce
qed

lemma segment_started:
  assumes "batch_segment data off len seg" and "off \<le> j" and "j < off + len"
  shows "\<exists>ss. seg = map Started [off..<j] @ Started j # ss"
proof -
  obtain d where d: "off + len = j + d"
    using assms(3) less_imp_add_positive by (metis less_imp_le_nat nat_le_iff_add)
  have "[off..<j + d] = [off..<j] @ [j..<j + d]"
    using assms(2) by (rule upt_add_eq_append)
  then have "[off..<off + len] = [off..<j] @ [j..<off + len]"
    using d by simp
  also have "[j..<off + len] = j # [Suc j..<off + len]"
    using assms(3) by (rule upt_conv_Cons)
  finally have "[off..<off + len] = [off..<j] @ j # [Suc j..<off + len]" .
  then have "seg = map Started [off..<j] @ Started j
      # (map Started [Suc j..<off + len] @ drop len seg)"
    using segment_split [OF assms(1)] by simp
  then show ?thesis
    by blast
qed

lemma concat_split:
  assumes "k < length xss"
  shows "concat xss = concat (take k xss) @ xss ! k @ concat (drop (Suc k) xss)"
proof -
  have "concat xss = concat (take k xss @ xss ! k # drop (Suc k) xss)"
    using id_take_nth_drop [OF assms] by (rule arg_cong)
  then show ?thesis
    by simp
qed

lemma segments_ordered:
  assumes all2: "list_all2 (\<lambda>(off, b) seg. batch_segment data off (length b) seg)
           (iterations data 0) segs"
    and kk: "k < k'" "k' < length (iterations data 0)"
    and i: "in_batch (iterations data 0 ! k) i"
    and j: "in_batch (iterations data 0 ! k') j"
  shows "\<exists>pre post r. concat segs = pre @ Started j # post
    \<and> Settled i r \<in> set pre \<and> Started j \<notin> set pre"
proof -
  let ?its = "iterations data 0"
  have len: "length segs = length ?its"
    using all2 by (simp add: list_all2_lengthD)
  have seg: "\<And>m. m < length ?its \<Longrightarrow>
      batch_segment data (m * batchSize)
        (length (take batchSize (drop (m * batchSize) data))) (segs ! m)"
  proof -
    fix m assume m: "m < length ?its"
    have "(\<lambda>(off, b) seg. batch_segment data off (length b) seg) (?its ! m) (segs ! m)"
      using all2 m by (rule list_all2_nthD)
    then show "batch_segment data (m * batchSize)
        (length (take batchSize (drop (m * batchSize) data))) (segs ! m)"
      using m by (simp add: iterations_nth)
  qed
  have k: "k < length ?its"
    using kk by simp
  have i': "k * batchSize \<le> i"
    "i < k * batchSize + length (take batchSize (drop (k * batchSize) data))"
    using i k by (simp_all add: iterations_nth)
  have j': "k' * batchSize \<le> j"
    "j < k' * batchSize + length (take batchSize (drop (k' * batchSize) data))"
    using j kk(2) by (simp_all add: iterations_nth)
  obtain r where r: "Settled i r \<in> set (segs ! k)"
    using segment_settled [OF seg [OF k] i'] by blast
  obtain ss where ss: "segs ! k' = map Started [k' * batchSize..<j] @ Started j # ss"
    using segment_started [OF seg [OF kk(2)] j'] by blast
  let ?pre = "concat (take k' segs) @ map Started [k' * batchSize..<j]"
  let ?post = "ss @ concat (drop (Suc k') segs)"
  have split: "concat segs = ?pre @ Started j # ?post"
    using concat_split [of k' segs] kk(2) len ss by simp
  have "take k' segs ! k = segs ! k" and "k < length (take k' segs)"
    using kk len by simp_all
  then have "segs ! k \<in> set (take k' segs)"
    using nth_mem by metis
  then have in_pre: "Settled i r \<in> set ?pre"
    using r by auto
  have early: "\<And>e. e \<in> set (concat (take k' segs)) \<Longrightarrow> event_item e < j"
  proof -
    fix e assume "e \<in> set (concat (take k' segs))"
    then obtain sg where sg: "sg \<in> set (take k' segs)" and e': "e \<in> set sg"
      by auto
    obtain m where "m < length (take k' segs)" and "take k' segs ! m = sg"
      using sg in_set_conv_nth by metis
    then have m: "m < k'" and e: "e \<in> set (segs ! m)"
      using e' by simp_all
    have "m < length ?its"
      using m kk(2) by simp
    then have "event_item e
        < m * batchSize + length (take batchSize (drop (m * batchSize) data))"
      using segment_items [OF seg e] by simp
    also have "\<dots> \<le> m * batchSize + batchSize"
      by simp
    also have "\<dots> = Suc m * batchSize"
      by simp
    also have "\<dots> \<le> k' * batchSize"
      using m by (simp only: Suc_le_eq mult_le_mono1)
    finally show "event_item e < j"
      using j'(1) by simp
  qed
  have "Started j \<notin> set (concat (take k' segs))"
    using early by fastforce
  then have not_pre: "Started j \<notin> set ?pre"
    by auto
  show ?thesis
    using split in_pre not_pre by blast
qed

subsection \<open>The whole run\<close>

lemma uploadCountry_Array:
  "uploadCountry cfg (Some (u # us)) (Resolved (Array data)) sched rows png
    = (Inr [(''created'', created (batch_loop cfg sched data 0 (start_state rows png))),
            (''updated'', updated (batch_loop cfg sched data 0 (start_state rows png))),
            (''total'', processed (batch_loop cfg sched data 0 (start_state rows png)))],
       batch_loop cfg sched data 0 (start_state rows png))"
  by (simp add: uploadCountry_def uploadCountry_try_def Let_def)

lemma uploadCountry_Inr:
  assumes "uploadCountry cfg api_countries response sched rows png = (Inr res, st)"
  shows "\<exists>data. response = Resolved (Array data)
    \<and> st = batch_loop cfg sched data 0 (start_state rows png)
    \<and> res = [(''created'', created st), (''updated'', updated st), (''total'', processed st)]"
  using assms
  by (auto simp: uploadCountry_def uploadCountry_try_def Let_def
      split: if_splits axios_result.splits payload.splits)

lemma two_alands_run:
  "fst (uploadCountry node_postgres (Some ''https://restcountries.example/v2/all'')
          (Resolved (Array [aland, aland])) round_robin [] None)
    = Inr [(''created'', 1), (''updated'', 0), (''total'', 2)]"
  by code_simp

lemma eleven_alands: "iterations (replicate 11 aland) 0 = [(0, replicate 10 aland), (10, [aland])]"
  by code_simp

subsection \<open>A run over a single item that is already stored\<close>

lemma pending_single: "pending [t] = (if fulfilled t then [] else [0])"
  by (simp add: pending_def)

lemma turn_single:
  "\<not> fulfilled t \<Longrightarrow>
    turn cfg sched i0 [t] st
      = ([fst (resume cfg (snd (sched (clock st))) t st)],
         (snd (resume cfg (snd (sched (clock st))) t st))
           \<lparr>clock := clock st + 1,
            events := events (snd (resume cfg (snd (sched (clock st))) t st))
                       @ settle_event i0 (fst (resume cfg (snd (sched (clock st))) t st))\<rparr>)"
  by (simp add: turn_def pending_single Let_def)

lemma run_tasks_single:
  "\<not> fulfilled t \<Longrightarrow>
    run_tasks cfg sched i0 [t] st
      = run_tasks cfg sched i0 [fst (resume cfg (snd (sched (clock st))) t st)]
          ((snd (resume cfg (snd (sched (clock st))) t st))
           \<lparr>clock := clock st + 1,
            events := events (snd (resume cfg (snd (sched (clock st))) t st))
                       @ settle_event i0 (fst (resume cfg (snd (sched (clock st))) t st))\<rparr>)"
  by (subst run_tasks.simps) (simp add: pending_single turn_single)

lemma render_keeps_rows:
  "db (snd (resume cfg e (AwaitSummaryImage country res) st)) = db st
   \<and> created (snd (resume cfg e (AwaitSummaryImage country res) st)) = created st
   \<and> updated (snd (resume cfg e (AwaitSummaryImage country res) st)) = updated st
   \<and> fulfilled (fst (resume cfg e (AwaitSummaryImage country res) st))"
  by (simp split: sum.splits)

lemma single_item_update_run:
  assumes found: "country_findFirst rows (toLowerCase cfg (name country)) = Some existing"
    and up0: "\<not> store_down (snd (sched 0))" and up1: "\<not> store_down (snd (sched 1))"
  shows "\<exists>st. uploadCountry cfg (Some (u # us)) (Resolved (Array [country])) sched rows png
        = (Inr [(''created'', 0), (''updated'', 1), (''total'', 1)], st)
      \<and> db st = map (\<lambda>r. if name r = toLowerCase cfg (name country)
                          then update_data country existing
                                 (population country * or_zero (exchange_rate existing)
                                    * update_multiplier (random (snd (sched 0)))) r
                          else r) rows"
proof -
  let ?n = "toLowerCase cfg (name country)"
  let ?gdp = "population country * or_zero (exchange_rate existing)
                * update_multiplier (random (snd (sched 0)))"
  let ?rows = "map (\<lambda>r. if name r = ?n then update_data country existing ?gdp r else r) rows"
  let ?t1 = "AwaitUpdate country existing ?gdp"
  let ?t2 = "AwaitSummaryImage country (Updated (name country))"
  define s0 where "s0 = (start_state rows png)\<lparr>events := [Started 0]\<rparr>"
  define s1 where "s1 = s0\<lparr>clock := 1\<rparr>"
  define s2 where "s2 = s1\<lparr>db := ?rows, updated := 1, clock := 2\<rparr>"
  define t3 where "t3 = fst (resume cfg (snd (sched (clock s2))) ?t2 s2)"
  define s3 where "s3 = (snd (resume cfg (snd (sched (clock s2))) ?t2 s2))
        \<lparr>clock := clock s2 + 1,
         events := events (snd (resume cfg (snd (sched (clock s2))) ?t2 s2))
                    @ settle_event 0 t3\<rparr>"
  have f0: "country_findFirst (db s0) ?n = Some existing"
    and u0: "\<not> store_down (snd (sched (clock s0)))"
    and g0: "random (snd (sched (clock s0))) = random (snd (sched 0))"
    using found up0 by (simp_all add: s0_def start_state_def)
  have r0: "resume cfg (snd (sched (clock s0))) (AwaitFindFirst country) s0 = (?t1, s0)"
    using resume_find_existing [OF f0 u0] g0 by simp
  have e0: "s0\<lparr>clock := clock s0 + 1, events := events s0 @ settle_event 0 ?t1\<rparr> = s1"
    by (simp add: s1_def s0_def start_state_def)
  have "run_tasks cfg sched 0 [AwaitFindFirst country] s0
      = run_tasks cfg sched 0
          [fst (resume cfg (snd (sched (clock s0))) (AwaitFindFirst country) s0)]
          ((snd (resume cfg (snd (sched (clock s0))) (AwaitFindFirst country) s0))
           \<lparr>clock := clock s0 + 1,
            events := events (snd (resume cfg (snd (sched (clock s0)))
                                      (AwaitFindFirst country) s0))
                       @ settle_event 0 (fst (resume cfg (snd (sched (clock s0)))
                                               (AwaitFindFirst country) s0))\<rparr>)"
    by (rule run_tasks_single) simp
  then have step0: "run_tasks cfg sched 0 [AwaitFindFirst country] s0
      = run_tasks cfg sched 0 [?t1] s1"
    by (simp only: r0 fst_conv snd_conv e0)
  have f1: "country_findFirst (db s1) ?n = Some existing"
    and u1: "\<not> store_down (snd (sched (clock s1)))"
    using found up1 by (simp_all add: s1_def s0_def start_state_def)
  have r1: "resume cfg (snd (sched (clock s1))) ?t1 s1
      = (?t2,
         s1\<lparr>db := map (\<lambda>r. if name r = ?n then update_data country existing ?gdp r else r)
                      (db s1),
            updated := updated s1 + 1\<rparr>)"
    using f1 u1 by (rule resume_update)
  have e1: "(s1\<lparr>db := map (\<lambda>r. if name r = ?n then update_data country existing ?gdp r else r)
                      (db s1),
            updated := updated s1 + 1\<rparr>)
        \<lparr>clock := clock s1 + 1,
         events := events (s1\<lparr>db := map (\<lambda>r. if name r = ?n
                                      then update_data country existing ?gdp r else r) (db s1),
                               updated := updated s1 + 1\<rparr>)
                    @ settle_event 0 ?t2\<rparr> = s2"
    by (simp add: s2_def s1_def s0_def start_state_def)
  have "run_tasks cfg sched 0 [?t1] s1
      = run_tasks cfg sched 0
          [fst (resume cfg (snd (sched (clock s1))) ?t1 s1)]
          ((snd (resume cfg (snd (sched (clock s1))) ?t1 s1))
           \<lparr>clock := clock s1 + 1,
            events := events (snd (resume cfg (snd (sched (clock s1))) ?t1 s1))
                       @ settle_event 0 (fst (resume cfg (snd (sched (clock s1))) ?t1 s1))\<rparr>)"
    by (rule run_tasks_single) simp
  then have step1: "run_tasks cfg sched 0 [?t1] s1 = run_tasks cfg sched 0 [?t2] s2"
    by (simp only: r1 fst_conv snd_conv e1)
  have "run_tasks cfg sched 0 [?t2] s2
      = run_tasks cfg sched 0
          [fst (resume cfg (snd (sched (clock s2))) ?t2 s2)]
          ((snd (resume cfg (snd (sched (clock s2))) ?t2 s2))
           \<lparr>clock := clock s2 + 1,
            events := events (snd (resume cfg (snd (sched (clock s2))) ?t2 s2))
                       @ settle_event 0 (fst (resume cfg (snd (sched (clock s2))) ?t2 s2))\<rparr>)"
    by (rule run_tasks_single) simp
  then have step2: "run_tasks cfg sched 0 [?t2] s2 = run_tasks cfg sched 0 [t3] s3"
    by (simp only: t3_def s3_def)
  have keep: "db (snd (resume cfg (snd (sched (clock s2))) ?t2 s2)) = db s2"
    "created (snd (resume cfg (snd (sched (clock s2))) ?t2 s2)) = created s2"
    "updated (snd (resume cfg (snd (sched (clock s2))) ?t2 s2)) = updated s2"
    "processed (snd (resume cfg (snd (sched (clock s2))) ?t2 s2)) = processed s2"
    and fin3: "fulfilled t3"
    using render_keeps_rows [of cfg "snd (sched (clock s2))" country "Updated (name country)" s2]
      resume_observed [of cfg "snd (sched (clock s2))" ?t2 s2]
    by (simp_all add: t3_def)
  have k: "db s3 = ?rows" "created s3 = 0" "updated s3 = 1" "processed s3 = 0"
    using keep by (simp_all add: s3_def s2_def s1_def s0_def start_state_def)
  have step3: "run_tasks cfg sched 0 [t3] s3 = ([t3], s3)"
    using fin3 by (simp add: run_tasks_done pending_single)
  have run: "snd (run_tasks cfg sched 0 [AwaitFindFirst country] s0) = s3"
    by (simp only: step0 step1 step2 step3 snd_conv)
  have start_events: "events (start_state rows png) = []"
    by (simp add: start_state_def)
  have "batch_loop cfg sched [country] 0 (start_state rows png)
      = batch_loop cfg sched [country] (0 + batchSize)
          ((snd (run_tasks cfg sched 0 [AwaitFindFirst country] s0))
             \<lparr>processed := processed (snd (run_tasks cfg sched 0 [AwaitFindFirst country] s0))
                             + 1\<rparr>)"
    using batch_loop_step [of 0 "[country]" cfg sched "start_state rows png"]
      start_events
    by (simp add: batchSize_def s0_def)
  then have loop: "batch_loop cfg sched [country] 0 (start_state rows png)
      = s3\<lparr>processed := processed s3 + 1\<rparr>"
    unfolding run by (simp add: batch_loop_done batchSize_def)
  show ?thesis
    using k by (simp add: uploadCountry_Array loop)
qed

subsection \<open>A run over a single item that is not stored yet\<close>

lemma getExchangeRate_values:
  "getExchangeRate cc response = Inr v \<Longrightarrow> v \<noteq> NaN"
  by (auto simp: getExchangeRate_def getExchangeRate_try_def property_def
      split: axios_result.splits option.splits if_splits)

lemma NaN_only_with_inherited:
  assumes "resume cfg e t st = (AwaitCreate country new, st')" and "estimated_gdp new = NaN"
  shows "\<exists>f. exchange_rate new = Inherited f"
proof (cases t)
  case (AwaitFindFirst c)
  then show ?thesis
    using assms
    by (auto simp: Let_def newCountry_def split: if_splits option.splits)
next
  case (AwaitExchangeRate c cc)
  then obtain v where v: "getExchangeRate cc (exchange e) = Inr v"
    and new: "new = newCountry cfg c (Some cc) v (calculateEstimatedGdp (random e) v (population c))"
    using assms(1) by (auto simp: Let_def split: sum.splits)
  have "v \<noteq> NaN"
    using v by (rule getExchangeRate_values)
  then show ?thesis
    using assms(2) unfolding new by (cases v) (simp_all add: newCountry_def Let_def)
next
  case (AwaitUpdate c existing gdp)
  then show ?thesis
    using assms(1) by (auto split: sum.splits)
next
  case (AwaitCreate c n)
  then show ?thesis
    using assms(1) by (auto split: sum.splits)
next
  case (AwaitSummaryImage c res)
  then show ?thesis
    using assms(1) by (auto split: sum.splits)
next
  case (Fulfilled res)
  then show ?thesis
    using assms(1) by simp
qed

lemma resume_find_absent:
  assumes "country_findFirst (db st) (toLowerCase cfg (name country)) = None"
    and "\<not> store_down e" and "currencies country = Some (c # cs)" and "code c \<noteq> []"
  shows "resume cfg e (AwaitFindFirst country) st = (AwaitExchangeRate country (code c), st)"
  using assms by (simp add: Let_def)

lemma resume_exchange_rate:
  assumes "exchange e = Resolved d" and "map_of (rates d) cc = Some rate" and "rate \<noteq> 0"
  shows "resume cfg e (AwaitExchangeRate country cc) st
    = (AwaitCreate country
         \<lparr>name = toLowerCase cfg (name country), capital = capital country,
          region = region country, population = population country,
          currency_code = Some cc, exchange_rate = Number rate,
          estimated_gdp = Number (population country * rate * (random e * 1000 + 1000)),
          flag_url = flag country\<rparr>, st)"
  using assms
  by (simp add: getExchangeRate_def getExchangeRate_try_def property_def newCountry_def
      mult_ac)

lemma resume_create:
  assumes "country_findFirst (db st) (toLowerCase cfg (name country)) = None"
    and "\<not> store_down e"
  shows "resume cfg e
      (AwaitCreate country
         \<lparr>name = toLowerCase cfg (name country), capital = capital country,
          region = region country, population = population country,
          currency_code = cur, exchange_rate = Number rate,
          estimated_gdp = Number gdp, flag_url = flag country\<rparr>) st
    = (AwaitSummaryImage country (Created (name country)),
       st\<lparr>db := db st @
              [\<lparr>name = toLowerCase cfg (name country), capital = capital country,
                region = region country, population = population country,
                currency_code = cur, exchange_rate = Some rate,
                estimated_gdp = Some gdp, flag_url = flag country\<rparr>],
          created := created st + 1\<rparr>)"
  using assms by (simp add: awaited_def country_create_def)

lemma single_item_create_run:
  assumes absent: "country_findFirst rows (toLowerCase cfg (name country)) = None"
    and cur: "currencies country = Some (c # cs)" and cc: "code c \<noteq> []"
    and up0: "\<not> store_down (snd (sched 0))"
    and ex: "exchange (snd (sched 1)) = Resolved d"
    and rt: "map_of (rates d) (code c) = Some rate" and nz: "rate \<noteq> 0"
    and up2: "\<not> store_down (snd (sched 2))"
  shows "\<exists>st. uploadCountry cfg (Some (u # us)) (Resolved (Array [country])) sched rows png
        = (Inr [(''created'', 1), (''updated'', 0), (''total'', 1)], st)
      \<and> db st = rows @
          [\<lparr>name = toLowerCase cfg (name country), capital = capital country,
            region = region country, population = population country,
            currency_code = Some (code c), exchange_rate = Some rate,
            estimated_gdp
              = Some (population country * rate * (random (snd (sched 1)) * 1000 + 1000)),
            flag_url = flag country\<rparr>]"
proof -
  let ?gdp = "population country * rate * (random (snd (sched 1)) * 1000 + 1000)"
  let ?new = "\<lparr>name = toLowerCase cfg (name country), capital = capital country,
          region = region country, population = population country,
          currency_code = Some (code c), exchange_rate = Number rate,
          estimated_gdp = Number ?gdp, flag_url = flag country\<rparr>"
  let ?row = "\<lparr>name = toLowerCase cfg (name country), capital = capital country,
          region = region country, population = population country,
          currency_code = Some (code c), exchange_rate = Some rate,
          estimated_gdp = Some ?gdp, flag_url = flag country\<rparr>"
  let ?t1 = "AwaitExchangeRate country (code c)"
  let ?t2 = "AwaitCreate country ?new"
  let ?t3 = "AwaitSummaryImage country (Created (name country))"
  define s0 where "s0 = (start_state rows png)\<lparr>events := [Started 0]\<rparr>"
  define s1 where "s1 = s0\<lparr>clock := 1\<rparr>"
  define s2 where "s2 = s0\<lparr>clock := 2\<rparr>"
  define s3 where "s3 = s0\<lparr>db := rows @ [?row], created := 1, clock := 3\<rparr>"
  define t4 where "t4 = fst (resume cfg (snd (sched (clock s3))) ?t3 s3)"
  define s4 where "s4 = (snd (resume cfg (snd (sched (clock s3))) ?t3 s3))
        \<lparr>clock := clock s3 + 1,
         events := events (snd (resume cfg (snd (sched (clock s3))) ?t3 s3))
                    @ settle_event 0 t4\<rparr>"
  have single: "\<And>t st. \<not> fulfilled t \<Longrightarrow>
      run_tasks cfg sched 0 [t] st
        = run_tasks cfg sched 0 [fst (resume cfg (snd (sched (clock st))) t st)]
            ((snd (resume cfg (snd (sched (clock st))) t st))
             \<lparr>clock := clock st + 1,
              events := events (snd (resume cfg (snd (sched (clock st))) t st))
                         @ settle_event 0 (fst (resume cfg (snd (sched (clock st))) t st))\<rparr>)"
    by (rule run_tasks_single)
  have f0: "country_findFirst (db s0) (toLowerCase cfg (name country)) = None"
    and u0: "\<not> store_down (snd (sched (clock s0)))"
    using absent up0 by (simp_all add: s0_def start_state_def)
  have r0: "resume cfg (snd (sched (clock s0))) (AwaitFindFirst country) s0 = (?t1, s0)"
    using f0 u0 cur cc by (rule resume_find_absent)
  have e0: "s0\<lparr>clock := clock s0 + 1, events := events s0 @ settle_event 0 ?t1\<rparr> = s1"
    by (simp add: s1_def s0_def start_state_def)
  have step0: "run_tasks cfg sched 0 [AwaitFindFirst country] s0
      = run_tasks cfg sched 0 [?t1] s1"
    using single [of "AwaitFindFirst country" s0] by (simp only: r0 fst_conv snd_conv e0) simp
  have x1: "exchange (snd (sched (clock s1))) = Resolved d"
    and q1: "random (snd (sched (clock s1))) = random (snd (sched 1))"
    using ex by (simp_all add: s1_def s0_def start_state_def)
  have r1: "resume cfg (snd (sched (clock s1))) ?t1 s1 = (?t2, s1)"
    using resume_exchange_rate [OF x1 rt nz, of cfg country s1] q1 by simp
  have e1: "s1\<lparr>clock := clock s1 + 1, events := events s1 @ settle_event 0 ?t2\<rparr> = s2"
    by (simp add: s2_def s1_def s0_def start_state_def)
  have step1: "run_tasks cfg sched 0 [?t1] s1 = run_tasks cfg sched 0 [?t2] s2"
    using single [of ?t1 s1] by (simp only: r1 fst_conv snd_conv e1) simp
  have f2: "country_findFirst (db s2) (toLowerCase cfg (name country)) = None"
    and u2: "\<not> store_down (snd (sched (clock s2)))"
    using absent up2 by (simp_all add: s2_def s0_def start_state_def)
  have r2: "resume cfg (snd (sched (clock s2))) ?t2 s2
      = (?t3, s2\<lparr>db := db s2 @ [?row], created := created s2 + 1\<rparr>)"
    using f2 u2 by (rule resume_create)
  have e2: "(s2\<lparr>db := db s2 @ [?row], created := created s2 + 1\<rparr>)
        \<lparr>clock := clock s2 + 1,
         events := events (s2\<lparr>db := db s2 @ [?row], created := created s2 + 1\<rparr>)
                    @ settle_event 0 ?t3\<rparr> = s3"
    by (simp add: s3_def s2_def s0_def start_state_def)
  have step2: "run_tasks cfg sched 0 [?t2] s2 = run_tasks cfg sched 0 [?t3] s3"
    using single [of ?t2 s2] by (simp only: r2 fst_conv snd_conv e2) simp
  have step3: "run_tasks cfg sched 0 [?t3] s3 = run_tasks cfg sched 0 [t4] s4"
    using single [of ?t3 s3] by (simp only: t4_def s4_def) simp
  have keep: "db (snd (resume cfg (snd (sched (clock s3))) ?t3 s3)) = db s3"
    "created (snd (resume cfg (snd (sched (clock s3))) ?t3 s3)) = created s3"
    "updated (snd (resume cfg (snd (sched (clock s3))) ?t3 s3)) = updated s3"
    "processed (snd (resume cfg (snd (sched (clock s3))) ?t3 s3)) = processed s3"
    and fin4: "fulfilled t4"
    using render_keeps_rows [of cfg "snd (sched (clock s3))" country "Created (name country)" s3]
      resume_observed [of cfg "snd (sched (clock s3))" ?t3 s3]
    by (simp_all add: t4_def)
  have k: "db s4 = rows @ [?row]" "created s4 = 1" "updated s4 = 0" "processed s4 = 0"
    using keep by (simp_all add: s4_def s3_def s0_def start_state_def)
  have step4: "run_tasks cfg sched 0 [t4] s4 = ([t4], s4)"
    using fin4 by (simp add: run_tasks_done pending_single)
  have run: "snd (run_tasks cfg sched 0 [AwaitFindFirst country] s0) = s4"
    by (simp only: step0 step1 step2 step3 step4 snd_conv)
  have start_events: "events (start_state rows png) = []"
    by (simp add: start_state_def)
  have "batch_loop cfg sched [country] 0 (start_state rows png)
      = batch_loop cfg sched [country] (0 + batchSize)
          ((snd (run_tasks cfg sched 0 [AwaitFindFirst country] s0))
             \<lparr>processed := processed (snd (run_tasks cfg sched 0 [AwaitFindFirst country] s0))
                             + 1\<rparr>)"
    using batch_loop_step [of 0 "[country]" cfg sched "start_state rows png"]
      start_events
    by (simp add: batchSize_def s0_def)
  then have loop: "batch_loop cfg sched [country] 0 (start_state rows png)
      = s4\<lparr>processed := processed s4 + 1\<rparr>"
    unfolding run by (simp add: batch_loop_done batchSize_def)
  show ?thesis
    using k by (simp add: uploadCountry_Array loop)
qed

subsection \<open>Columns a run leaves alone\<close>

lemma keeps_frame_mono:
  "frame ` set rows \<subseteq> frame ` set rows' \<Longrightarrow> keeps_frame cfg rows t \<Longrightarrow> keeps_frame cfg rows' t"
  by (cases t) auto

lemma unique_row:
  assumes "distinct (map name rows)" and "r \<in> set rows" and "r0 \<in> set rows"
    and "name r = name r0"
  shows "r = r0"
  using assms by (meson distinct_map inj_onD)

lemma update_keeps_frames:
  assumes dist: "distinct (map name rows)"
    and ex: "frame existing \<in> frame ` set rows"
    and nm: "name existing = n"
  shows "map frame (map (\<lambda>r. if name r = n then update_data country existing gdp r else r) rows)
    = map frame rows"
proof -
  obtain r0 where r0: "r0 \<in> set rows" and f0: "frame r0 = frame existing"
    using ex by auto
  have n0: "name r0 = n"
    using f0 nm by (simp add: frame_def)
  have "\<And>r. r \<in> set rows \<Longrightarrow> name r = n \<Longrightarrow>
      frame (update_data country existing gdp r) = frame r"
  proof -
    fix r assume "r \<in> set rows" and "name r = n"
    then have "r = r0"
      using unique_row [OF dist _ r0] n0 by simp
    then show "frame (update_data country existing gdp r) = frame r"
      using f0 by (simp add: frame_def update_data_def)
  qed
  then show ?thesis
    by (simp add: map_idI comp_def cong: map_cong)
qed

lemma create_fresh:
  "country_findFirst rows (name c) = None \<Longrightarrow> name c \<notin> set (map name rows)"
  by (auto simp: country_findFirst_def find_None_iff)

lemma findFirst_Some:
  "country_findFirst rows n = Some r \<Longrightarrow> r \<in> set rows \<and> name r = n"
  by (auto simp: country_findFirst_def find_Some_iff)

lemma resume_frame:
  assumes dist: "distinct (map name (db st))" and kf: "keeps_frame cfg (db st) t"
  shows "distinct (map name (db (snd (resume cfg e t st))))
    \<and> (\<exists>new. map frame (db (snd (resume cfg e t st))) = map frame (db st) @ new)
    \<and> keeps_frame cfg (db (snd (resume cfg e t st))) (fst (resume cfg e t st))"
proof (cases t)
  case (AwaitFindFirst country)
  then show ?thesis
    using dist findFirst_Some [of "db st" "toLowerCase cfg (name country)"]
    by (auto simp: Let_def split: option.splits)
next
  case (AwaitUpdate country existing gdp)
  let ?n = "toLowerCase cfg (name country)"
  let ?rows = "map (\<lambda>r. if name r = ?n then update_data country existing gdp r else r) (db st)"
  have fr: "map frame ?rows = map frame (db st)"
    using update_keeps_frames [OF dist, of existing ?n country gdp] kf AwaitUpdate by simp
  have nm: "map name ?rows = map name (db st)"
    by (simp add: comp_def cong: map_cong)
  have d2: "distinct (map name ?rows)"
    using dist by (simp only: nm)
  have f2: "\<exists>new. map frame ?rows = map frame (db st) @ new"
    by (intro exI [of _ "[]"]) (simp only: fr append_Nil2)
  have "(\<exists>err. resume cfg e t st = (Fulfilled (Failed (name country) err), st))
      \<or> resume cfg e t st
          = (AwaitSummaryImage country (Updated (name country)),
             st\<lparr>db := ?rows, updated := updated st + 1\<rparr>)"
    by (auto simp: AwaitUpdate awaited_def country_update_def split: option.splits)
  then show ?thesis
  proof
    assume "\<exists>err. resume cfg e t st = (Fulfilled (Failed (name country) err), st)"
    then show ?thesis
      using dist by auto
  next
    assume "resume cfg e t st
          = (AwaitSummaryImage country (Updated (name country)),
             st\<lparr>db := ?rows, updated := updated st + 1\<rparr>)"
    then show ?thesis
      using d2 f2 by simp
  qed
next
  case (AwaitExchangeRate country cc)
  then show ?thesis
    using dist by (simp add: Let_def split: sum.splits)
next
  case (AwaitCreate country new)
  then show ?thesis
    using dist create_fresh [of "db st" new]
    by (auto simp: awaited_def country_create_def split: option.splits)
next
  case (AwaitSummaryImage country res)
  then show ?thesis
    using dist by (auto split: sum.splits)
next
  case (Fulfilled res)
  then show ?thesis
    using dist by simp
qed


lemma frame_turn:
  assumes inv: "rows_inv rows0 st \<and> list_all (keeps_frame cfg (db st)) ts"
    and pend: "pending ts \<noteq> []"
  shows "rows_inv rows0 (snd (turn cfg sched i0 ts st))
    \<and> list_all (keeps_frame cfg (db (snd (turn cfg sched i0 ts st)))) (fst (turn cfg sched i0 ts st))"
proof -
  obtain j e where j: "j < length ts"
    and tn: "turn cfg sched i0 ts st
        = (ts[j := fst (resume cfg e (ts ! j) st)],
           (snd (resume cfg e (ts ! j) st))
             \<lparr>clock := clock st + 1,
              events := events (snd (resume cfg e (ts ! j) st))
                         @ settle_event (i0 + j) (fst (resume cfg e (ts ! j) st))\<rparr>)"
    using turn_resumes [OF pend, of cfg sched i0 st] by blast
  define t where "t = fst (resume cfg e (ts ! j) st)"
  define st1 where "st1 = snd (resume cfg e (ts ! j) st)"
  have dist: "distinct (map name (db st))"
    and pre: "\<exists>new. map frame (db st) = map frame rows0 @ new"
    and all: "list_all (keeps_frame cfg (db st)) ts"
    using inv by (simp_all add: rows_inv_def)
  have "keeps_frame cfg (db st) (ts ! j)"
    using all j by (simp add: list_all_length)
  then have step: "distinct (map name (db st1))
      \<and> (\<exists>new. map frame (db st1) = map frame (db st) @ new)
      \<and> keeps_frame cfg (db st1) t"
    unfolding st1_def t_def using dist resume_frame by blast
  then obtain new where new: "map frame (db st1) = map frame (db st) @ new"
    by blast
  obtain new0 where new0: "map frame (db st) = map frame rows0 @ new0"
    using pre by blast
  have grow: "map frame (db st1) = map frame rows0 @ (new0 @ new)"
    using new new0 by simp
  have "set (map frame (db st)) \<subseteq> set (map frame (db st1))"
    unfolding new by simp
  then have sub: "frame ` set (db st) \<subseteq> frame ` set (db st1)"
    by simp
  have others: "\<And>x. x \<in> set ts \<Longrightarrow> keeps_frame cfg (db st1) x"
    using all sub keeps_frame_mono by (auto simp: list_all_iff)
  have "\<And>x. x \<in> set (ts[j := t]) \<Longrightarrow> keeps_frame cfg (db st1) x"
    using others step set_update_subset_insert [of ts j t] by auto
  then have all': "list_all (keeps_frame cfg (db st1)) (ts[j := t])"
    by (simp add: list_all_iff)
  have inv': "rows_inv rows0 st1"
    unfolding rows_inv_def using step grow by blast
  show ?thesis
    using tn all' inv' by (simp add: t_def st1_def rows_inv_def)
qed

lemma run_tasks_rows_inv:
  assumes "rows_inv rows0 st"
  shows "rows_inv rows0 (snd (run_tasks cfg sched i0 (map AwaitFindFirst batch) st))"
proof -
  let ?I = "\<lambda>ts st. rows_inv rows0 st \<and> list_all (keeps_frame cfg (db st)) ts"
  have "list_all (keeps_frame cfg (db st)) (map AwaitFindFirst batch)"
    by (simp add: list_all_iff)
  then have "?I (map AwaitFindFirst batch) st"
    using assms by simp
  then have "?I (fst (run_tasks cfg sched i0 (map AwaitFindFirst batch) st))
        (snd (run_tasks cfg sched i0 (map AwaitFindFirst batch) st))
      \<and> pending (fst (run_tasks cfg sched i0 (map AwaitFindFirst batch) st)) = []"
    using frame_turn by (rule run_tasks_rule)
  then show ?thesis
    by simp
qed

lemma batch_loop_rows_inv:
  "rows_inv rows0 st \<Longrightarrow> rows_inv rows0 (batch_loop cfg sched data i st)"
proof (induction "length data - i" arbitrary: i st rule: less_induct)
  case less
  show ?case
  proof (cases "i < length data")
    case False
    then show ?thesis
      using less.prems by (simp add: batch_loop_done)
  next
    case True
    let ?batch = "take batchSize (drop i data)"
    let ?st1 = "st\<lparr>events := events st @ map Started [i..<i + length ?batch]\<rparr>"
    let ?st2 = "snd (run_tasks cfg sched i (map AwaitFindFirst ?batch) ?st1)"
    let ?st3 = "?st2\<lparr>processed := processed ?st2 + length ?batch\<rparr>"
    have "rows_inv rows0 ?st1"
      using less.prems by (simp add: rows_inv_def)
    then have "rows_inv rows0 ?st2"
      by (rule run_tasks_rows_inv)
    then have "rows_inv rows0 ?st3"
      by (simp add: rows_inv_def)
    moreover have "length data - (i + batchSize) < length data - i"
      using True by (simp add: batchSize_def)
    ultimately have "rows_inv rows0 (batch_loop cfg sched data (i + batchSize) ?st3)"
      using less.hyps by blast
    then show ?thesis
      using True by (simp only: batch_loop_step)
  qed
qed

lemma uploadCountry_state:
  "snd (uploadCountry cfg api_countries response sched rows png) = start_state rows png
   \<or> (\<exists>data. snd (uploadCountry cfg api_countries response sched rows png)
         = batch_loop cfg sched data 0 (start_state rows png))"
  by (auto simp: uploadCountry_def uploadCountry_try_def Let_def
      split: axios_result.splits payload.splits)

lemma uploadCountry_keeps_frames:
  assumes "distinct (map name rows)"
  shows "\<exists>new. map frame (db (snd (uploadCountry cfg api_countries response sched rows png)))
    = map frame rows @ new"
proof -
  have start: "rows_inv rows (start_state rows png)"
    using assms by (simp add: rows_inv_def start_state_def)
  then have "\<And>data. rows_inv rows (batch_loop cfg sched data 0 (start_state rows png))"
    by (rule batch_loop_rows_inv)
  then have "rows_inv rows (snd (uploadCountry cfg api_countries response sched rows png))"
    using start uploadCountry_state [of cfg api_countries response sched rows png] by auto
  then show ?thesis
    by (simp add: rows_inv_def)
qed

section \<open>Properties\<close>

text \<open>
  C1. When \<open>uploadCountry\<close> returns, the source had answered with an array, and the
  object returned has the keys \<open>created\<close>, \<open>updated\<close> and \<open>total\<close> and no key
  \<open>failed\<close>. \<open>total\<close> is the size of the dataset, every item has settled once, and
  \<open>created + updated\<close> plus the number of items that raised before their write (in
  \<open>findFirst\<close>, \<open>update\<close> or \<open>create\<close>) is \<open>total\<close>; so \<open>created + updated \<le> total\<close>.
  The table has grown by exactly \<open>created\<close> rows.
\<close>

theorem uploadCountry_counters:
  assumes "uploadCountry cfg api_countries response sched rows png = (Inr res, st)"
  shows "\<exists>data. response = Resolved (Array data)
     \<and> res = [(''created'', created st), (''updated'', updated st), (''total'', processed st)]
     \<and> map_of res ''failed'' = None
     \<and> processed st = length data
     \<and> length (item_results (events st)) = length data
     \<and> created st + updated st
         + length (filter failed_before_write (item_results (events st))) = length data
     \<and> created st + updated st \<le> processed st
     \<and> length (db st) = length rows + created st"
proof -
  obtain data where resp: "response = Resolved (Array data)"
    and st: "st = batch_loop cfg sched data 0 (start_state rows png)"
    and res: "res = [(''created'', created st), (''updated'', updated st),
                     (''total'', processed st)]"
    using uploadCountry_Inr [OF assms] by blast
  obtain segs where ev: "events st = events (start_state rows png) @ concat segs"
    and len: "length (item_results (concat segs)) = length data - 0"
    and cnt: "created st + updated st
          + length (filter failed_before_write (item_results (concat segs)))
        = created (start_state rows png) + updated (start_state rows png) + (length data - 0)"
    and rws: "length (db st) + created (start_state rows png)
        = length (db (start_state rows png)) + created st"
    and prc: "processed st = processed (start_state rows png) + (length data - 0)"
    using batch_loop_log [of cfg sched data 0 "start_state rows png"] unfolding st by blast
  have ev': "events st = concat segs"
    using ev by (simp add: start_state_def)
  have a: "map_of res ''failed'' = None"
    unfolding res by simp
  have b: "processed st = length data"
    using prc by (simp add: start_state_def)
  have c: "length (item_results (events st)) = length data"
    using len ev' by simp
  have d: "created st + updated st
         + length (filter failed_before_write (item_results (events st))) = length data"
    using cnt ev' by (simp add: start_state_def)
  have e: "created st + updated st \<le> processed st"
    using d b by simp
  have f: "length (db st) = length rows + created st"
    using rws by (simp add: start_state_def)
  show ?thesis
    using resp res a b c d e f by blast
qed

theorem uploadCountry_counters_witness:
  "fst (uploadCountry node_postgres (Some ''https://restcountries.example/v2/all'')
          (Resolved (Array [aland, aland])) round_robin [] None)
     = Inr [(''created'', 1), (''updated'', 0), (''total'', 2)]
   \<and> length (filter failed_before_write (item_results (events
        (snd (uploadCountry node_postgres (Some ''https://restcountries.example/v2/all'')
          (Resolved (Array [aland, aland])) round_robin [] None))))) = 1"
proof -
  let ?run = "uploadCountry node_postgres (Some ''https://restcountries.example/v2/all'')
          (Resolved (Array [aland, aland])) round_robin [] None"
  have h: "?run = (Inr [(''created'', 1), (''updated'', 0), (''total'', 2)], snd ?run)"
    using two_alands_run by (metis prod.collapse)
  show ?thesis
    using uploadCountry_counters [OF h] two_alands_run by auto
qed

text \<open>
  C1, as first stated (\<open>created + updated + failed = total\<close> with \<open>failed\<close> the number of
  items whose processing raised, and a \<open>failed\<close> counter in the result), fails when the
  report render raises after an item's row was written: the item is counted in
  \<open>created\<close> and its result is \<open>failed\<close>.
\<close>

theorem uploadCountry_render_failure_counterexample:
  "fst (uploadCountry node_postgres (Some ''https://restcountries.example/v2/all'')
          (Resolved (Array [aland])) encoder_down [] None)
     = Inr [(''created'', 1), (''updated'', 0), (''total'', 1)]
   \<and> map_of [(''created'', 1 :: nat), (''updated'', 0), (''total'', 1)] ''failed'' = None
   \<and> item_results (events (snd (uploadCountry node_postgres
          (Some ''https://restcountries.example/v2/all'')
          (Resolved (Array [aland])) encoder_down [] None)))
     = [Failed ''Aland'' SharpError]
   \<and> created (snd (uploadCountry node_postgres (Some ''https://restcountries.example/v2/all'')
          (Resolved (Array [aland])) encoder_down [] None))
     + updated (snd (uploadCountry node_postgres (Some ''https://restcountries.example/v2/all'')
          (Resolved (Array [aland])) encoder_down [] None))
     + length (filter is_failed (item_results (events (snd (uploadCountry node_postgres
          (Some ''https://restcountries.example/v2/all'')
          (Resolved (Array [aland])) encoder_down [] None)))))
     \<noteq> length [aland]"
  by code_simp

text \<open>
  C2. When the country source answers HTTP 500, the inner \<open>catch\<close> throws an
  \<open>HttpException\<close> with status 503, and the outer \<open>catch\<close> replaces it: the caller
  receives status 500, \<open>Failed to upload countries\<close>, as for every other rejection of
  the GET and every setting of the source URL. The table and the cached report are as
  before.
\<close>

theorem uploadCountry_source_http_500:
  "uploadCountry_try cfg (Some ''https://restcountries.example/v2/all'')
       (Rejected (BadStatus 500)) sched rows png
     = (Inl (HttpException 503 ''External data source unavailable''), start_state rows png)
   \<and> uploadCountry cfg (Some ''https://restcountries.example/v2/all'')
       (Rejected (BadStatus 500)) sched rows png
     = (Inl (HttpException 500 ''Failed to upload countries''), start_state rows png)
   \<and> uploadCountry cfg api_countries (Rejected apiErr) sched rows png
     = (Inl (HttpException 500 ''Failed to upload countries''), start_state rows png)
   \<and> db (start_state rows png) = rows \<and> cache (start_state rows png) = png"
  by (simp add: uploadCountry_def uploadCountry_try_def start_state_def
      INTERNAL_SERVER_ERROR_def SERVICE_UNAVAILABLE_def)

text \<open>
  C3. The report query has no filter on \<open>estimated_gdp\<close>: a table whose only row has an
  unknown GDP yields a ranked list with that row, printed with 0 billions; and where the
  database orders \<open>NULL\<close> above every number, the unknown row is ranked first and
  displaces the fifth known one. In general the list has min(5, number of rows) entries:
  no row is left out for its GDP.
\<close>

theorem report_lists_unknown_gdp:
  "top5 cfg [unrated] = [(''atlantis'', None)]
   \<and> generateSummaryImage cfg quiet [unrated]
       = Inr \<lparr>width = 800, height = 350, totalCountries = 1,
              countryItems = [\<lparr>y = 210, rank = 1, label = ''atlantis'', gdpBillions = 0\<rparr>],
              timestamp = 0\<rparr>
   \<and> top5 node_postgres six_rows
       = [(''atlantis'', None), (''a'', Some 5000000000), (''b'', Some 4000000000),
          (''c'', Some 3000000000), (''d'', Some 2000000000)]
   \<and> length (top5 cfg rows) = min 5 (length rows)"
proof -
  have a: "top5 cfg [unrated] = [(''atlantis'', None)]"
    by (simp add: top5_def sort_by_def unrated_def row_def)
  have b: "generateSummaryImage cfg quiet [unrated]
       = Inr \<lparr>width = 800, height = 350, totalCountries = 1,
              countryItems = [\<lparr>y = 210, rank = 1, label = ''atlantis'', gdpBillions = 0\<rparr>],
              timestamp = 0\<rparr>"
    by (simp add: generateSummaryImage_def a generateSVG_def quiet_def country_count_def)
  have c: "top5 node_postgres six_rows
       = [(''atlantis'', None), (''a'', Some 5000000000), (''b'', Some 4000000000),
          (''c'', Some 3000000000), (''d'', Some 2000000000)]"
    by code_simp
  have d: "length (top5 cfg rows) = min 5 (length rows)"
    by (simp add: top5_def length_sort_by min.commute)
  show ?thesis using a b c d by simp
qed

text \<open>
  C4. For every non-empty region string \<open>r\<close>, every row that \<open>getAllCountries\<close> returns
  is a row of the table whose region is \<open>capitalizeFirstWord r\<close>: the upper-casing of the
  first character of \<open>r\<close> followed by the rest of \<open>r\<close> as it is. The stored region is
  compared as it is, and of \<open>r\<close> only the first character is case-normalised; so two
  spellings whose first characters have the same upper-casing and whose rests are equal
  get the same answer.
\<close>

theorem getAllCountries_region:
  assumes "r \<noteq> []"
    and "getAllCountries cfg down rows (Some r) currency srt = Inr found"
    and "c \<in> set found"
  shows "c \<in> set rows \<and> region c = capitalizeFirstWord cfg r
    \<and> region c = toUpperCase cfg [hd r] @ tl r
    \<and> (\<forall>r'. r' \<noteq> [] \<and> toUpperCase cfg [hd r'] = toUpperCase cfg [hd r] \<and> tl r' = tl r
          \<longrightarrow> getAllCountries cfg down rows (Some r') currency srt = Inr found)"
proof -
  let ?f = "build_filters cfg (Some r) currency srt"
  have "getAllCountries_try cfg down rows (Some r) currency srt = Inr found"
    using assms(2) unfolding getAllCountries_def by (rule catch_rethrow_Inr)
  then have "awaited down FindMany (country_findMany cfg rows ?f (sort ?f)) = Inr found"
    using assms(1)
    by (simp add: getAllCountries_try_def Let_def split: sum.splits if_splits)
  then have fm: "country_findMany cfg rows ?f (sort ?f) = Inr found"
    by (rule awaited_Inr)
  have "c \<in> set rows \<and> matches ?f c"
    using fm assms(3) by (rule findMany_matches)
  then have a: "c \<in> set rows" and rg: "region c = capitalizeFirstWord cfg r"
    using build_filters_region [OF assms(1)] by (auto simp: matches_def)
  have b: "region c = toUpperCase cfg [hd r] @ tl r"
    using rg assms(1) by (simp add: capitalizeFirstWord_first)
  have d: "\<forall>r'. r' \<noteq> [] \<and> toUpperCase cfg [hd r'] = toUpperCase cfg [hd r] \<and> tl r' = tl r
          \<longrightarrow> getAllCountries cfg down rows (Some r') currency srt = Inr found"
  proof (intro allI impI)
    fix r'
    assume h: "r' \<noteq> [] \<and> toUpperCase cfg [hd r'] = toUpperCase cfg [hd r] \<and> tl r' = tl r"
    then have "capitalizeFirstWord cfg r' = capitalizeFirstWord cfg r"
      using assms(1) by (simp add: capitalizeFirstWord_first)
    then have "getAllCountries cfg down rows (Some r') currency srt
        = getAllCountries cfg down rows (Some r) currency srt"
      using h assms(1) by (intro getAllCountries_spelling) simp_all
    then show "getAllCountries cfg down rows (Some r') currency srt = Inr found"
      using assms(2) by simp
  qed
  show ?thesis
    using a rg b d by blast
qed

theorem getAllCountries_region_witness:
  "''africa'' \<noteq> [] \<and> nigeria \<in> set [nigeria]
    \<and> region nigeria = capitalizeFirstWord node_postgres ''africa''
    \<and> region nigeria = ''Africa''
    \<and> getAllCountries node_postgres False [nigeria] (Some ''Africa'') None None = Inr [nigeria]"
proof -
  have a: "''africa'' \<noteq> []" by simp
  have b: "nigeria \<in> set [nigeria]" by simp
  have c: "''Africa'' \<noteq> [] \<and> toUpperCase node_postgres [hd ''Africa'']
      = toUpperCase node_postgres [hd ''africa''] \<and> tl ''Africa'' = tl ''africa''"
    using upper_first_africa by simp
  have d: "region nigeria = ''Africa''"
    by (simp add: nigeria_def row_def)
  show ?thesis
    using getAllCountries_region [OF a getAllCountries_africa b] a b c d by blast
qed

text \<open>
  C4, as first stated for every region string, fails for the empty string: it is falsy,
  no region filter is set, and with no other argument the whole table is returned.
\<close>

theorem getAllCountries_empty_region_counterexample:
  "getAllCountries node_postgres False [nigeria] (Some []) None None = Inr [nigeria]
    \<and> capitalizeFirstWord node_postgres (region nigeria) \<noteq> capitalizeFirstWord node_postgres []"
  by code_simp

text \<open>
  C5. Deleting a name that no row has: Prisma's \<open>delete\<close> rejects, the service's
  \<open>catch\<close> turns the rejection into status 500, and the controller's test for a missing
  row is never reached; the same happens for a name that differs from the stored one in
  letter case only. Deleting a stored name succeeds and removes the row. For no table
  and no name does the operation fail with status 404.
\<close>

theorem deleteCountry_absent_name:
  "deleteCountry False [nigeria] ''atlantis''
     = Inl (HttpException 500 ''Internal server Error'')
   \<and> controller_deleteCountry False [nigeria] ''atlantis''
     = Inl (HttpException 500 ''Internal server Error'')
   \<and> controller_deleteCountry False [nigeria] ''Nigeria''
     = Inl (HttpException 500 ''Internal server Error'')
   \<and> controller_deleteCountry False [nigeria] ''nigeria''
     = Inr (''Country deleted successfully'', [])
   \<and> controller_deleteCountry down rows n \<noteq> Inl (HttpException 404 msg)"
proof -
  have "deleteCountry False [nigeria] ''atlantis''
     = Inl (HttpException 500 ''Internal server Error'')
   \<and> controller_deleteCountry False [nigeria] ''atlantis''
     = Inl (HttpException 500 ''Internal server Error'')
   \<and> controller_deleteCountry False [nigeria] ''Nigeria''
     = Inl (HttpException 500 ''Internal server Error'')
   \<and> controller_deleteCountry False [nigeria] ''nigeria''
     = Inr (''Country deleted successfully'', [])"
    by code_simp
  then show ?thesis
    using deleteCountry_never_NotFound by blast
qed

text \<open>
  C6. An item whose lower-cased name is the name of a stored row, with the store
  answering: the task goes from \<open>findFirst\<close> to \<open>update\<close> to the report render and never
  to the exchange-rate resolver (the outcome of the exchange-rate GET has no influence).
  The new estimate is population * stored rate * multiplier (0 in place of an unknown
  stored rate), where the multiplier is drawn when \<open>findFirst\<close> has answered: it is
  1000 + floor (1001 * \<open>Math.random()\<close>), a whole number between 1000 and 2000. After
  the update the row has capital, region, population and
  estimate from the item; its name, currency code, exchange rate and flag are the
  stored ones; no other row changes; \<open>updated\<close> is one more and \<open>created\<close> is as before.
  A whole run over the dataset that holds this one item returns
  \<open>{created: 0, updated: 1, total: 1}\<close> and leaves the table as the update made it.
  And for every dataset and every schedule, on a table whose names are unique: each row
  that was there before the run keeps its place, name, currency code, exchange rate and
  flag; rows are only appended.
\<close>

theorem update_path_frame:
  assumes found: "country_findFirst (db st) (toLowerCase cfg (name country)) = Some existing"
    and up1: "\<not> store_down e1" and up2: "\<not> store_down e2"
    and rnd: "0 \<le> random e1" "random e1 < 1"
  shows "\<exists>multiplier gdp st' r'.
      multiplier = of_int \<lfloor>random e1 * 1001\<rfloor> + 1000
    \<and> 1000 \<le> multiplier \<and> multiplier \<le> 2000
    \<and> gdp = population country
              * (case exchange_rate existing of None \<Rightarrow> 0 | Some rate \<Rightarrow> rate) * multiplier
    \<and> resume cfg e1 (AwaitFindFirst country) st = (AwaitUpdate country existing gdp, st)
    \<and> resume cfg e2 (AwaitUpdate country existing gdp) st
        = (AwaitSummaryImage country (Updated (name country)), st')
    \<and> country_findFirst (db st') (toLowerCase cfg (name country)) = Some r'
    \<and> capital r' = capital country \<and> region r' = region country
    \<and> population r' = population country \<and> estimated_gdp r' = Some gdp
    \<and> name r' = name existing
    \<and> currency_code r' = currency_code existing
    \<and> exchange_rate r' = exchange_rate existing
    \<and> flag_url r' = flag_url existing
    \<and> (\<forall>m. m = toLowerCase cfg (name country)
            \<or> country_findFirst (db st') m = country_findFirst (db st) m)
    \<and> map name (db st') = map name (db st)
    \<and> updated st' = updated st + 1 \<and> created st' = created st \<and> cache st' = cache st
    \<and> (\<forall>x. resume cfg (e1\<lparr>exchange := x\<rparr>) (AwaitFindFirst country) st
             = resume cfg e1 (AwaitFindFirst country) st)
    \<and> (\<forall>x. resume cfg (e2\<lparr>exchange := x\<rparr>) (AwaitUpdate country existing gdp) st
             = resume cfg e2 (AwaitUpdate country existing gdp) st)
    \<and> (\<forall>sched u us. snd (sched 0) = e1 \<and> snd (sched 1) = e2 \<longrightarrow>
          (\<exists>fin. uploadCountry cfg (Some (u # us)) (Resolved (Array [country])) sched
                    (db st) (cache st)
                  = (Inr [(''created'', 0), (''updated'', 1), (''total'', 1)], fin)
                \<and> db fin = db st'))
    \<and> (\<forall>cfg' api response sched rows png. distinct (map name rows) \<longrightarrow>
          (\<exists>new. map frame (db (snd (uploadCountry cfg' api response sched rows png)))
                  = map frame rows @ new))"
proof -
  let ?n = "toLowerCase cfg (name country)"
  let ?m = "update_multiplier (random e1)"
  let ?gdp = "population country * or_zero (exchange_rate existing) * ?m"
  let ?rows = "map (\<lambda>r. if name r = ?n then update_data country existing ?gdp r else r) (db st)"
  let ?st = "st\<lparr>db := ?rows, updated := updated st + 1\<rparr>"
  let ?r = "update_data country existing ?gdp existing"
  have m: "1000 \<le> ?m" "?m \<le> 2000"
    using update_multiplier_range [OF rnd] by simp_all
  have m0: "?m = of_int \<lfloor>random e1 * 1001\<rfloor> + 1000"
    by (simp add: update_multiplier_def)
  have g0: "?gdp = population country
              * (case exchange_rate existing of None \<Rightarrow> 0 | Some rate \<Rightarrow> rate) * ?m"
    by (cases "exchange_rate existing") simp_all
  have s1: "resume cfg e1 (AwaitFindFirst country) st = (AwaitUpdate country existing ?gdp, st)"
    using found up1 by (rule resume_find_existing)
  have s2: "resume cfg e2 (AwaitUpdate country existing ?gdp) st
        = (AwaitSummaryImage country (Updated (name country)), ?st)"
    using found up2 by (rule resume_update)
  have f1: "country_findFirst (db ?st) ?n = Some ?r"
    using updated_row(1) [OF found] by simp
  have f2: "\<forall>m. m = ?n \<or> country_findFirst (db ?st) m = country_findFirst (db st) m"
    using updated_row(2) [OF found] by auto
  have f3: "map name (db ?st) = map name (db st)"
    using updated_row(3) [OF found] by simp
  have flds: "capital ?r = capital country" "region ?r = region country"
    "population ?r = population country" "estimated_gdp ?r = Some ?gdp"
    "name ?r = name existing" "currency_code ?r = currency_code existing"
    "exchange_rate ?r = exchange_rate existing" "flag_url ?r = flag_url existing"
    by (simp_all add: update_data_def)
  have cnt: "updated ?st = updated st + 1" "created ?st = created st" "cache ?st = cache st"
    by simp_all
  have x1: "\<forall>x. resume cfg (e1\<lparr>exchange := x\<rparr>) (AwaitFindFirst country) st
             = resume cfg e1 (AwaitFindFirst country) st"
    using found by (simp add: Let_def)
  have x2: "\<forall>x. resume cfg (e2\<lparr>exchange := x\<rparr>) (AwaitUpdate country existing ?gdp) st
             = resume cfg e2 (AwaitUpdate country existing ?gdp) st"
    by simp
  have run: "\<forall>sched u us. snd (sched 0) = e1 \<and> snd (sched 1) = e2 \<longrightarrow>
          (\<exists>fin. uploadCountry cfg (Some (u # us)) (Resolved (Array [country])) sched
                    (db st) (cache st)
                  = (Inr [(''created'', 0), (''updated'', 1), (''total'', 1)], fin)
                \<and> db fin = db ?st)"
  proof (intro allI impI)
    fix sched :: "nat \<Rightarrow> nat \<times> env" and u us
    assume e: "snd (sched 0) = e1 \<and> snd (sched 1) = e2"
    then have e0: "snd (sched 0) = e1"
      and u0: "\<not> store_down (snd (sched 0))" and u1: "\<not> store_down (snd (sched 1))"
      using up1 up2 by simp_all
    have "\<exists>fin. uploadCountry cfg (Some (u # us)) (Resolved (Array [country])) sched
                    (db st) (cache st)
                  = (Inr [(''created'', 0), (''updated'', 1), (''total'', 1)], fin)
                \<and> db fin = ?rows"
      using single_item_update_run [OF found u0 u1, of u us "cache st"]
      unfolding e0 .
    then show "\<exists>fin. uploadCountry cfg (Some (u # us)) (Resolved (Array [country])) sched
                    (db st) (cache st)
                  = (Inr [(''created'', 0), (''updated'', 1), (''total'', 1)], fin)
                \<and> db fin = db ?st"
      by simp
  qed
  have whole: "\<forall>cfg' api response sched rows png. distinct (map name rows) \<longrightarrow>
          (\<exists>new. map frame (db (snd (uploadCountry cfg' api response sched rows png)))
                  = map frame rows @ new)"
    using uploadCountry_keeps_frames by blast
  show ?thesis
    apply (rule exI [of _ ?m], rule exI [of _ ?gdp], rule exI [of _ ?st], rule exI [of _ ?r])
    using m0 m g0 s1 s2 f1 f2 f3 flds cnt x1 x2 run whole by blast
qed

theorem update_path_frame_witness:
  "country_findFirst (db (start_state [stored_aland] None))
       (toLowerCase node_postgres (name aland))
     = Some stored_aland
   \<and> \<not> store_down quiet \<and> 0 \<le> random quiet \<and> random quiet < 1
   \<and> resume node_postgres quiet (AwaitFindFirst aland) (start_state [stored_aland] None)
       = (AwaitUpdate aland stored_aland 49500000, start_state [stored_aland] None)
   \<and> (\<exists>st' r'.
        resume node_postgres quiet (AwaitUpdate aland stored_aland 49500000)
            (start_state [stored_aland] None)
          = (AwaitSummaryImage aland (Updated (name aland)), st')
      \<and> country_findFirst (db st') (toLowerCase node_postgres (name aland)) = Some r'
      \<and> capital r' = ''Mariehamn'' \<and> region r' = ''Europe'' \<and> population r' = 30000
      \<and> estimated_gdp r' = Some 49500000
      \<and> name r' = ''aland'' \<and> currency_code r' = Some ''XYZ''
      \<and> exchange_rate r' = Some (11 / 10) \<and> flag_url r' = ''-''
      \<and> updated st' = 1 \<and> created st' = 0)"
proof -
  let ?s = "start_state [stored_aland] None"
  obtain multiplier gdp st' r' where
    m: "multiplier = of_int \<lfloor>random quiet * 1001\<rfloor> + 1000"
    and g: "gdp = population aland
              * (case exchange_rate stored_aland of None \<Rightarrow> 0 | Some rate \<Rightarrow> rate) * multiplier"
    and s1: "resume node_postgres quiet (AwaitFindFirst aland) ?s
        = (AwaitUpdate aland stored_aland gdp, ?s)"
    and s2: "resume node_postgres quiet (AwaitUpdate aland stored_aland gdp) ?s
        = (AwaitSummaryImage aland (Updated (name aland)), st')"
    and f: "country_findFirst (db st') (toLowerCase node_postgres (name aland)) = Some r'"
    and flds: "capital r' = capital aland" "region r' = region aland"
      "population r' = population aland" "estimated_gdp r' = Some gdp"
      "name r' = name stored_aland" "currency_code r' = currency_code stored_aland"
      "exchange_rate r' = exchange_rate stored_aland" "flag_url r' = flag_url stored_aland"
    and cnt: "updated st' = updated ?s + 1" "created st' = created ?s"
    using update_path_frame [OF findFirst_stored_aland quiet_facts(1) quiet_facts(1)
      quiet_facts(2) quiet_facts(3)]
    by blast
  have "\<lfloor>(1001 :: rat) / 2\<rfloor> = 500"
    by (rule floor_unique) simp_all
  then have "multiplier = 1500"
    unfolding m by (simp add: quiet_def)
  then have gdp: "gdp = 49500000"
    unfolding g by (simp add: aland_def stored_aland_def row_def)
  have vals: "capital r' = ''Mariehamn''" "region r' = ''Europe''" "population r' = 30000"
    "estimated_gdp r' = Some 49500000" "name r' = ''aland''"
    "currency_code r' = Some ''XYZ''" "exchange_rate r' = Some (11 / 10)"
    "flag_url r' = ''-''" "updated st' = 1" "created st' = 0"
    using flds cnt gdp by (simp_all add: aland_def stored_aland_def row_def start_state_def)
  show ?thesis
    using findFirst_stored_aland quiet_facts s1 s2 f vals unfolding gdp by blast
qed

text \<open>
  C7. For every rate and population: an unknown rate gives an unknown estimate; a known
  rate gives population * rate * multiplier, where the multiplier is
  1000 + 1000 * \<open>Math.random()\<close>, a number from 1000 up to but not including 2000
  (\<open>Math.random()\<close> returns a value in [0, 1)). A record is created with that estimate:
  for an item whose lower-cased name no row has and whose first currency has a non-empty
  code, with the store answering and the exchange-rate source listing a non-zero rate
  under the code, the task goes from \<open>findFirst\<close> to the resolver to \<open>create\<close>, the row
  appended to the table has the item's capital, region, population and flag, the code,
  the listed rate, and the estimate population * rate * multiplier with the multiplier
  drawn when the resolver has answered; \<open>created\<close> is one more. A whole run over the
  dataset that holds this one item returns \<open>{created: 1, updated: 0, total: 1}\<close> and
  leaves the table with that row appended. For population 30000 and rate 1.1 the
  estimate lies between 30000 * 1.1 * 1000 and 30000 * 1.1 * 2000.
\<close>

theorem estimated_gdp_of_created_record:
  assumes rnd: "0 \<le> rnd" "rnd < 1"
  shows "calculateEstimatedGdp rnd Null pop = Null
    \<and> calculateEstimatedGdp rnd (Number rate) pop = Number (pop * rate * (rnd * 1000 + 1000))
    \<and> 1000 \<le> rnd * 1000 + 1000 \<and> rnd * 1000 + 1000 < 2000
    \<and> calculateEstimatedGdp rnd (Number (11 / 10)) 30000
        = Number (30000 * (11 / 10) * (rnd * 1000 + 1000))
    \<and> 30000 * (11 / 10) * 1000 \<le> 30000 * (11 / 10) * (rnd * 1000 + 1000)
    \<and> 30000 * (11 / 10) * (rnd * 1000 + 1000) \<le> 30000 * (11 / 10) * 2000
    \<and> (country_findFirst (db st) (toLowerCase cfg (name country)) = None
        \<and> currencies country = Some (c # cs) \<and> code c \<noteq> []
        \<and> \<not> store_down e1
        \<and> exchange e2 = Resolved d \<and> map_of (rates d) (code c) = Some rate \<and> rate \<noteq> 0
        \<and> random e2 = rnd
        \<and> \<not> store_down e3
       \<longrightarrow> (\<exists>gdp new created_row st'.
             gdp = population country * rate * (rnd * 1000 + 1000)
           \<and> new = \<lparr>name = toLowerCase cfg (name country), capital = capital country,
                     region = region country, population = population country,
                     currency_code = Some (code c), exchange_rate = Number rate,
                     estimated_gdp = Number gdp, flag_url = flag country\<rparr>
           \<and> created_row = \<lparr>name = toLowerCase cfg (name country), capital = capital country,
                     region = region country, population = population country,
                     currency_code = Some (code c), exchange_rate = Some rate,
                     estimated_gdp = Some gdp, flag_url = flag country\<rparr>
           \<and> st' = st\<lparr>db := db st @ [created_row], created := created st + 1\<rparr>
           \<and> resume cfg e1 (AwaitFindFirst country) st = (AwaitExchangeRate country (code c), st)
           \<and> resume cfg e2 (AwaitExchangeRate country (code c)) st = (AwaitCreate country new, st)
           \<and> resume cfg e3 (AwaitCreate country new) st
               = (AwaitSummaryImage country (Created (name country)), st')
           \<and> (0 \<le> population country * rate
                \<longrightarrow> population country * rate * 1000 \<le> gdp
                  \<and> gdp \<le> population country * rate * 2000)
           \<and> (\<forall>sched u us.
                snd (sched 0) = e1 \<and> snd (sched 1) = e2 \<and> snd (sched 2) = e3 \<longrightarrow>
                (\<exists>fin. uploadCountry cfg (Some (u # us)) (Resolved (Array [country])) sched
                          (db st) (cache st)
                        = (Inr [(''created'', 1), (''updated'', 0), (''total'', 1)], fin)
                      \<and> db fin = db st @ [created_row]))))"
proof -
  let ?m = "rnd * 1000 + 1000"
  have lo: "1000 \<le> ?m" and hi: "?m < 2000"
    using rnd by simp_all
  have est: "\<And>r p. calculateEstimatedGdp rnd (Number r) p = Number (p * r * ?m)"
    by (simp add: mult_ac)
  have a: "calculateEstimatedGdp rnd Null pop = Null"
    by simp
  have b1: "30000 * (11 / 10) * 1000 \<le> 30000 * (11 / 10) * ?m"
    and b2: "30000 * (11 / 10) * ?m \<le> 30000 * (11 / 10) * 2000"
    using rnd by simp_all
  have path: "country_findFirst (db st) (toLowerCase cfg (name country)) = None
        \<and> currencies country = Some (c # cs) \<and> code c \<noteq> []
        \<and> \<not> store_down e1
        \<and> exchange e2 = Resolved d \<and> map_of (rates d) (code c) = Some rate \<and> rate \<noteq> 0
        \<and> random e2 = rnd
        \<and> \<not> store_down e3
       \<longrightarrow> (\<exists>gdp new created_row st'.
             gdp = population country * rate * (rnd * 1000 + 1000)
           \<and> new = \<lparr>name = toLowerCase cfg (name country), capital = capital country,
                     region = region country, population = population country,
                     currency_code = Some (code c), exchange_rate = Number rate,
                     estimated_gdp = Number gdp, flag_url = flag country\<rparr>
           \<and> created_row = \<lparr>name = toLowerCase cfg (name country), capital = capital country,
                     region = region country, population = population country,
                     currency_code = Some (code c), exchange_rate = Some rate,
                     estimated_gdp = Some gdp, flag_url = flag country\<rparr>
           \<and> st' = st\<lparr>db := db st @ [created_row], created := created st + 1\<rparr>
           \<and> resume cfg e1 (AwaitFindFirst country) st = (AwaitExchangeRate country (code c), st)
           \<and> resume cfg e2 (AwaitExchangeRate country (code c)) st = (AwaitCreate country new, st)
           \<and> resume cfg e3 (AwaitCreate country new) st
               = (AwaitSummaryImage country (Created (name country)), st')
           \<and> (0 \<le> population country * rate
                \<longrightarrow> population country * rate * 1000 \<le> gdp
                  \<and> gdp \<le> population country * rate * 2000)
           \<and> (\<forall>sched u us.
                snd (sched 0) = e1 \<and> snd (sched 1) = e2 \<and> snd (sched 2) = e3 \<longrightarrow>
                (\<exists>fin. uploadCountry cfg (Some (u # us)) (Resolved (Array [country])) sched
                          (db st) (cache st)
                        = (Inr [(''created'', 1), (''updated'', 0), (''total'', 1)], fin)
                      \<and> db fin = db st @ [created_row])))"
  proof (intro impI)
    assume h: "country_findFirst (db st) (toLowerCase cfg (name country)) = None
        \<and> currencies country = Some (c # cs) \<and> code c \<noteq> []
        \<and> \<not> store_down e1
        \<and> exchange e2 = Resolved d \<and> map_of (rates d) (code c) = Some rate \<and> rate \<noteq> 0
        \<and> random e2 = rnd
        \<and> \<not> store_down e3"
    let ?gdp = "population country * rate * ?m"
    let ?new = "\<lparr>name = toLowerCase cfg (name country), capital = capital country,
                     region = region country, population = population country,
                     currency_code = Some (code c), exchange_rate = Number rate,
                     estimated_gdp = Number ?gdp, flag_url = flag country\<rparr>"
    let ?row = "\<lparr>name = toLowerCase cfg (name country), capital = capital country,
                     region = region country, population = population country,
                     currency_code = Some (code c), exchange_rate = Some rate,
                     estimated_gdp = Some ?gdp, flag_url = flag country\<rparr>"
    let ?st = "st\<lparr>db := db st @ [?row], created := created st + 1\<rparr>"
    have absent: "country_findFirst (db st) (toLowerCase cfg (name country)) = None"
      and cur: "currencies country = Some (c # cs)" and cc: "code c \<noteq> []"
      and up1: "\<not> store_down e1" and up3: "\<not> store_down e3"
      and ex: "exchange e2 = Resolved d" and rt: "map_of (rates d) (code c) = Some rate"
      and nz: "rate \<noteq> 0" and r2: "random e2 = rnd"
      using h by simp_all
    have s1: "resume cfg e1 (AwaitFindFirst country) st = (AwaitExchangeRate country (code c), st)"
      using absent up1 cur cc by (rule resume_find_absent)
    have s2: "resume cfg e2 (AwaitExchangeRate country (code c)) st = (AwaitCreate country ?new, st)"
      using resume_exchange_rate [OF ex rt nz, of cfg country st] r2 by simp
    have s3: "resume cfg e3 (AwaitCreate country ?new) st
               = (AwaitSummaryImage country (Created (name country)), ?st)"
      using resume_create [OF absent up3, of "Some (code c)" rate ?gdp] by simp
    have rng: "0 \<le> population country * rate
                \<longrightarrow> population country * rate * 1000 \<le> ?gdp
                  \<and> ?gdp \<le> population country * rate * 2000"
      using lo hi by (simp add: mult_left_mono)
    have run: "\<forall>sched u us.
                snd (sched 0) = e1 \<and> snd (sched 1) = e2 \<and> snd (sched 2) = e3 \<longrightarrow>
                (\<exists>fin. uploadCountry cfg (Some (u # us)) (Resolved (Array [country])) sched
                          (db st) (cache st)
                        = (Inr [(''created'', 1), (''updated'', 0), (''total'', 1)], fin)
                      \<and> db fin = db st @ [?row])"
    proof (intro allI impI)
      fix sched :: "nat \<Rightarrow> nat \<times> env" and u us
      assume e: "snd (sched 0) = e1 \<and> snd (sched 1) = e2 \<and> snd (sched 2) = e3"
      have u0: "\<not> store_down (snd (sched 0))" and u2: "\<not> store_down (snd (sched 2))"
        and x1: "exchange (snd (sched 1)) = Resolved d"
        and q1: "random (snd (sched 1)) = rnd"
        using e up1 up3 ex r2 by simp_all
      show "\<exists>fin. uploadCountry cfg (Some (u # us)) (Resolved (Array [country])) sched
                          (db st) (cache st)
                        = (Inr [(''created'', 1), (''updated'', 0), (''total'', 1)], fin)
                      \<and> db fin = db st @ [?row]"
        using single_item_create_run [OF absent cur cc u0 x1 rt nz u2, of u us "cache st"]
        unfolding q1 .
    qed
    show "\<exists>gdp new created_row st'.
             gdp = population country * rate * (rnd * 1000 + 1000)
           \<and> new = \<lparr>name = toLowerCase cfg (name country), capital = capital country,
                     region = region country, population = population country,
                     currency_code = Some (code c), exchange_rate = Number rate,
                     estimated_gdp = Number gdp, flag_url = flag country\<rparr>
           \<and> created_row = \<lparr>name = toLowerCase cfg (name country), capital = capital country,
                     region = region country, population = population country,
                     currency_code = Some (code c), exchange_rate = Some rate,
                     estimated_gdp = Some gdp, flag_url = flag country\<rparr>
           \<and> st' = st\<lparr>db := db st @ [created_row], created := created st + 1\<rparr>
           \<and> resume cfg e1 (AwaitFindFirst country) st = (AwaitExchangeRate country (code c), st)
           \<and> resume cfg e2 (AwaitExchangeRate country (code c)) st = (AwaitCreate country new, st)
           \<and> resume cfg e3 (AwaitCreate country new) st
               = (AwaitSummaryImage country (Created (name country)), st')
           \<and> (0 \<le> population country * rate
                \<longrightarrow> population country * rate * 1000 \<le> gdp
                  \<and> gdp \<le> population country * rate * 2000)
           \<and> (\<forall>sched u us.
                snd (sched 0) = e1 \<and> snd (sched 1) = e2 \<and> snd (sched 2) = e3 \<longrightarrow>
                (\<exists>fin. uploadCountry cfg (Some (u # us)) (Resolved (Array [country])) sched
                          (db st) (cache st)
                        = (Inr [(''created'', 1), (''updated'', 0), (''total'', 1)], fin)
                      \<and> db fin = db st @ [created_row]))"
      apply (rule exI [of _ ?gdp], rule exI [of _ ?new], rule exI [of _ ?row],
          rule exI [of _ ?st])
      using s1 s2 s3 rng run by blast
  qed
  show ?thesis
    using a est [of rate pop] est [of "11 / 10" 30000] lo hi b1 b2 path by blast
qed

theorem estimated_gdp_of_created_record_witness:
  "(0::rat) \<le> 1 / 3 \<and> (1 / 3 :: rat) < 1
   \<and> calculateEstimatedGdp (1 / 3) Null 30000 = Null
   \<and> calculateEstimatedGdp (1 / 3) (Number (11 / 10)) 30000 = Number 44000000
   \<and> (30000 * (11 / 10) * 1000 :: rat) \<le> 44000000
   \<and> (44000000 :: rat) \<le> 30000 * (11 / 10) * 2000
   \<and> country_findFirst (db (start_state [] None)) (toLowerCase node_postgres (name aland)) = None
   \<and> (\<exists>fin. uploadCountry node_postgres (Some ''https://restcountries.example/v2/all'')
               (Resolved (Array [aland])) one_third [] None
             = (Inr [(''created'', 1), (''updated'', 0), (''total'', 1)], fin)
           \<and> db fin = [\<lparr>name = ''aland'', capital = ''Mariehamn'', region = ''Europe'',
                          population = 30000, currency_code = Some ''EUR'',
                          exchange_rate = Some (11 / 10), estimated_gdp = Some 44000000,
                          flag_url = ''https://flags.example/ax.svg''\<rparr>])"
proof -
  let ?e = "quiet\<lparr>random := 1 / 3\<rparr>"
  let ?c = "\<lparr>code = ''EUR'', currency_name = ''Euro'', symbol = ''E''\<rparr>"
  let ?d = "\<lparr>result = ''success'', base_code = ''USD'', rates = [(''EUR'', 11 / 10 :: rat)]\<rparr>"
  let ?s = "start_state [] None"
  have a: "(0::rat) \<le> 1 / 3" and b: "(1 / 3 :: rat) < 1"
    by simp_all
  have h: "country_findFirst (db ?s) (toLowerCase node_postgres (name aland)) = None
        \<and> currencies aland = Some (?c # []) \<and> code ?c \<noteq> []
        \<and> \<not> store_down ?e
        \<and> exchange ?e = Resolved ?d \<and> map_of (rates ?d) (code ?c) = Some (11 / 10)
        \<and> (11 / 10 :: rat) \<noteq> 0
        \<and> random ?e = 1 / 3
        \<and> \<not> store_down ?e"
    by (simp add: start_state_def country_findFirst_def aland_def quiet_def)
  have sch: "snd (one_third 0) = ?e \<and> snd (one_third 1) = ?e \<and> snd (one_third 2) = ?e"
    by (simp add: one_third_def)
  have nm: "toLowerCase node_postgres (name aland) = ''aland''"
    by code_simp
  have v: "(30000 :: rat) * (11 / 10) * (1 / 3 * 1000 + 1000) = 44000000"
    by simp
  have dbs: "db ?s = []" "cache ?s = None"
    by (simp_all add: start_state_def)
  have flds: "capital aland = ''Mariehamn''" "region aland = ''Europe''"
    "population aland = 30000" "flag aland = ''https://flags.example/ax.svg''"
    "code ?c = ''EUR''"
    by (simp_all add: aland_def)
  obtain gdp created_row where
    g: "gdp = population aland * (11 / 10) * (1 / 3 * 1000 + 1000)"
    and r: "created_row = \<lparr>name = toLowerCase node_postgres (name aland),
                     capital = capital aland,
                     region = region aland, population = population aland,
                     currency_code = Some (code ?c), exchange_rate = Some (11 / 10),
                     estimated_gdp = Some gdp, flag_url = flag aland\<rparr>"
    and run: "\<forall>sched u us.
                snd (sched 0) = ?e \<and> snd (sched 1) = ?e \<and> snd (sched 2) = ?e \<longrightarrow>
                (\<exists>fin. uploadCountry node_postgres (Some (u # us)) (Resolved (Array [aland]))
                          sched (db ?s) (cache ?s)
                        = (Inr [(''created'', 1), (''updated'', 0), (''total'', 1)], fin)
                      \<and> db fin = db ?s @ [created_row])"
    using estimated_gdp_of_created_record [OF a b, of 30000 "11 / 10" ?s node_postgres aland
        ?c "[]" ?e ?e ?d ?e] h
    by blast
  have g': "gdp = 44000000"
    unfolding g flds using v by simp
  have r': "created_row = \<lparr>name = ''aland'', capital = ''Mariehamn'', region = ''Europe'',
                          population = 30000, currency_code = Some ''EUR'',
                          exchange_rate = Some (11 / 10), estimated_gdp = Some 44000000,
                          flag_url = ''https://flags.example/ax.svg''\<rparr>"
    unfolding r nm flds g' by simp
  have "\<exists>fin. uploadCountry node_postgres (Some ''https://restcountries.example/v2/all'')
               (Resolved (Array [aland])) one_third [] None
             = (Inr [(''created'', 1), (''updated'', 0), (''total'', 1)], fin)
           \<and> db fin = [] @ [created_row]"
    using run sch unfolding dbs by blast
  then have fin: "\<exists>fin. uploadCountry node_postgres (Some ''https://restcountries.example/v2/all'')
               (Resolved (Array [aland])) one_third [] None
             = (Inr [(''created'', 1), (''updated'', 0), (''total'', 1)], fin)
           \<and> db fin = [\<lparr>name = ''aland'', capital = ''Mariehamn'', region = ''Europe'',
                          population = 30000, currency_code = Some ''EUR'',
                          exchange_rate = Some (11 / 10), estimated_gdp = Some 44000000,
                          flag_url = ''https://flags.example/ax.svg''\<rparr>]"
    unfolding r' by simp
  have est: "calculateEstimatedGdp (1 / 3) Null 30000 = Null"
    "calculateEstimatedGdp (1 / 3) (Number (11 / 10)) 30000 = Number 44000000"
    using estimated_gdp_of_created_record [OF a b, of 30000 "11 / 10" ?s node_postgres aland
        ?c "[]" ?e ?e ?d ?e] v
    by simp_all
  have rng: "(30000 * (11 / 10) * 1000 :: rat) \<le> 44000000"
    "(44000000 :: rat) \<le> 30000 * (11 / 10) * 2000"
    by simp_all
  show ?thesis
    using a b est rng h fin by blast
qed




text \<open>
  C9. The loop slices the dataset into consecutive batches that concatenate to the
  dataset, the k-th starting at position 10 * k, every batch but the last of size 10,
  the last of size 1 to 10. The log of the run is the concatenation, in batch order, of
  one segment per batch: the starts of that batch's items followed by one settlement
  for each of them. So for batches k before k', every item of batch k has settled
  before any item of batch k' is started, whatever the schedule.
\<close>

theorem batches_sequential:
  "concat (map snd (iterations data 0)) = data
   \<and> map fst (iterations data 0) = map (\<lambda>k. k * 10) [0..<length (iterations data 0)]
   \<and> list_all (\<lambda>b. length b = 10) (butlast (map snd (iterations data 0)))
   \<and> list_all (\<lambda>b. b \<noteq> [] \<and> length b \<le> 10) (map snd (iterations data 0))
   \<and> (\<exists>segs.
        events (snd (uploadCountry cfg (Some (u # us)) (Resolved (Array data)) sched rows png))
          = concat segs
        \<and> list_all2 (\<lambda>(off, b) seg. batch_segment data off (length b) seg)
             (iterations data 0) segs)
   \<and> (\<forall>k k' i j.
        k < k' \<and> k' < length (iterations data 0)
        \<and> in_batch (iterations data 0 ! k) i \<and> in_batch (iterations data 0 ! k') j
        \<longrightarrow> (\<exists>pre post r.
              events (snd (uploadCountry cfg (Some (u # us)) (Resolved (Array data))
                             sched rows png))
                = pre @ Started j # post
              \<and> Settled i r \<in> set pre \<and> Started j \<notin> set pre))"
proof -
  let ?st = "batch_loop cfg sched data 0 (start_state rows png)"
  have run: "snd (uploadCountry cfg (Some (u # us)) (Resolved (Array data)) sched rows png) = ?st"
    by (simp add: uploadCountry_Array)
  obtain segs where ev: "events ?st = events (start_state rows png) @ concat segs"
    and all2: "list_all2 (\<lambda>(off, b) seg. batch_segment data off (length b) seg)
           (iterations data 0) segs"
    using batch_loop_log [of cfg sched data 0 "start_state rows png"] by blast
  have ev': "events ?st = concat segs"
    using ev by (simp add: start_state_def)
  have a: "concat (map snd (iterations data 0)) = data"
    by (simp add: iterations_concat)
  have b: "map fst (iterations data 0) = map (\<lambda>k. k * 10) [0..<length (iterations data 0)]"
    using iterations_offsets [of data] by (simp add: batchSize_def)
  have c: "list_all (\<lambda>b. length b = 10) (butlast (map snd (iterations data 0)))"
    and d: "list_all (\<lambda>b. b \<noteq> [] \<and> length b \<le> 10) (map snd (iterations data 0))"
    using iterations_sizes [of data 0] by (simp_all add: batchSize_def)
  have e: "\<exists>segs. events ?st = concat segs
        \<and> list_all2 (\<lambda>(off, b) seg. batch_segment data off (length b) seg)
             (iterations data 0) segs"
    using ev' all2 by blast
  have f: "\<forall>k k' i j.
        k < k' \<and> k' < length (iterations data 0)
        \<and> in_batch (iterations data 0 ! k) i \<and> in_batch (iterations data 0 ! k') j
        \<longrightarrow> (\<exists>pre post r. events ?st = pre @ Started j # post
              \<and> Settled i r \<in> set pre \<and> Started j \<notin> set pre)"
    unfolding ev'
  proof (intro allI impI)
    fix k k' i j
    assume "k < k' \<and> k' < length (iterations data 0)
        \<and> in_batch (iterations data 0 ! k) i \<and> in_batch (iterations data 0 ! k') j"
    then show "\<exists>pre post r. concat segs = pre @ Started j # post
              \<and> Settled i r \<in> set pre \<and> Started j \<notin> set pre"
      using segments_ordered [OF all2, of k k' i j] by blast
  qed
  show ?thesis
    unfolding run using a b c d e f by blast
qed

theorem batches_sequential_witness:
  "(0::nat) < 1 \<and> 1 < length (iterations (replicate 11 aland) 0)
   \<and> in_batch (iterations (replicate 11 aland) 0 ! 0) 0
   \<and> in_batch (iterations (replicate 11 aland) 0 ! 1) 10
   \<and> (\<exists>pre post r.
        events (snd (uploadCountry node_postgres (Some ''https://restcountries.example/v2/all'')
                       (Resolved (Array (replicate 11 aland))) round_robin [] None))
          = pre @ Started 10 # post
        \<and> Settled 0 r \<in> set pre \<and> Started 10 \<notin> set pre)"
proof -
  have h: "(0::nat) < 1 \<and> 1 < length (iterations (replicate 11 aland) 0)
   \<and> in_batch (iterations (replicate 11 aland) 0 ! 0) 0
   \<and> in_batch (iterations (replicate 11 aland) 0 ! 1) 10"
    by (simp add: eleven_alands)
  show ?thesis
    using batches_sequential [of "replicate 11 aland" node_postgres "CHR ''h''"
        "''ttps://restcountries.example/v2/all''" round_robin "[]" None] h
    by blast
qed

text \<open>
  C10. An item whose lower-cased name is the name of a stored row with an unknown
  exchange rate: the update path computes population * 0 * multiplier and writes the
  estimate 0, not unknown; the rate stays unknown, so the next run does the same. A whole
  run over the dataset that holds this one item leaves the row with estimate 0.
\<close>

theorem update_unknown_rate_writes_zero:
  assumes found: "country_findFirst (db st) (toLowerCase cfg (name country)) = Some existing"
    and norate: "exchange_rate existing = None"
    and up1: "\<not> store_down e1" and up2: "\<not> store_down e2"
  shows "resume cfg e1 (AwaitFindFirst country) st = (AwaitUpdate country existing 0, st)
    \<and> (\<exists>st' r'.
          resume cfg e2 (AwaitUpdate country existing 0) st
            = (AwaitSummaryImage country (Updated (name country)), st')
        \<and> country_findFirst (db st') (toLowerCase cfg (name country)) = Some r'
        \<and> estimated_gdp r' = Some 0 \<and> exchange_rate r' = None)
    \<and> (\<forall>sched u us. snd (sched 0) = e1 \<and> snd (sched 1) = e2 \<longrightarrow>
          (\<exists>fin r'. uploadCountry cfg (Some (u # us)) (Resolved (Array [country])) sched
                    (db st) (cache st)
                  = (Inr [(''created'', 0), (''updated'', 1), (''total'', 1)], fin)
                \<and> country_findFirst (db fin) (toLowerCase cfg (name country)) = Some r'
                \<and> estimated_gdp r' = Some 0 \<and> exchange_rate r' = None))"
proof -
  let ?n = "toLowerCase cfg (name country)"
  let ?rows = "map (\<lambda>r. if name r = ?n then update_data country existing 0 r else r) (db st)"
  let ?st = "st\<lparr>db := ?rows, updated := updated st + 1\<rparr>"
  let ?r = "update_data country existing 0 existing"
  have s1: "resume cfg e1 (AwaitFindFirst country) st = (AwaitUpdate country existing 0, st)"
    using resume_find_existing [OF found up1] norate by simp
  have s2: "resume cfg e2 (AwaitUpdate country existing 0) st
        = (AwaitSummaryImage country (Updated (name country)), ?st)"
    using found up2 by (rule resume_update)
  have f1: "country_findFirst ?rows ?n = Some ?r"
    using updated_row(1) [OF found] by simp
  then have f1': "country_findFirst (db ?st) ?n = Some ?r"
    by simp
  have flds: "estimated_gdp ?r = Some 0" "exchange_rate ?r = None"
    using norate by (simp_all add: update_data_def)
  have run: "\<forall>sched u us. snd (sched 0) = e1 \<and> snd (sched 1) = e2 \<longrightarrow>
          (\<exists>fin r'. uploadCountry cfg (Some (u # us)) (Resolved (Array [country])) sched
                    (db st) (cache st)
                  = (Inr [(''created'', 0), (''updated'', 1), (''total'', 1)], fin)
                \<and> country_findFirst (db fin) ?n = Some r'
                \<and> estimated_gdp r' = Some 0 \<and> exchange_rate r' = None)"
  proof (intro allI impI)
    fix sched :: "nat \<Rightarrow> nat \<times> env" and u us
    assume e: "snd (sched 0) = e1 \<and> snd (sched 1) = e2"
    then have "\<not> store_down (snd (sched 0))" and "\<not> store_down (snd (sched 1))"
      using up1 up2 by simp_all
    then obtain fin where
      "uploadCountry cfg (Some (u # us)) (Resolved (Array [country])) sched (db st) (cache st)
        = (Inr [(''created'', 0), (''updated'', 1), (''total'', 1)], fin)"
      and "db fin = ?rows"
      using single_item_update_run [OF found, of sched u us "cache st"] norate by auto
    then show "\<exists>fin r'. uploadCountry cfg (Some (u # us)) (Resolved (Array [country])) sched
                    (db st) (cache st)
                  = (Inr [(''created'', 0), (''updated'', 1), (''total'', 1)], fin)
                \<and> country_findFirst (db fin) ?n = Some r'
                \<and> estimated_gdp r' = Some 0 \<and> exchange_rate r' = None"
      using f1 flds by auto
  qed
  show ?thesis
    using s1 s2 f1' flds run by blast
qed

theorem update_unknown_rate_writes_zero_witness:
  "country_findFirst (db (start_state [stored_unrated_aland] None)) (toLowerCase node_postgres (name aland))
     = Some stored_unrated_aland
   \<and> exchange_rate stored_unrated_aland = None \<and> \<not> store_down quiet
   \<and> resume node_postgres quiet (AwaitFindFirst aland) (start_state [stored_unrated_aland] None)
       = (AwaitUpdate aland stored_unrated_aland 0, start_state [stored_unrated_aland] None)
   \<and> (\<exists>st' r'.
          resume node_postgres quiet (AwaitUpdate aland stored_unrated_aland 0)
              (start_state [stored_unrated_aland] None)
            = (AwaitSummaryImage aland (Updated (name aland)), st')
        \<and> country_findFirst (db st') (toLowerCase node_postgres (name aland)) = Some r'
        \<and> estimated_gdp r' = Some 0 \<and> exchange_rate r' = None)"
proof -
  have nr: "exchange_rate stored_unrated_aland = None"
    by (simp add: stored_unrated_aland_def row_def)
  show ?thesis
    using update_unknown_rate_writes_zero [OF findFirst_stored_unrated_aland nr
        quiet_facts(1) quiet_facts(1)]
      findFirst_stored_unrated_aland nr quiet_facts(1)
    by blast
qed

end
